theory Spec2Isabelle
  imports
    Main
    "HOL-Library.Word"
    "HOL-Library.Sublist"
    "HOL-Library.AList"
    "HOL-Library.Char_ord"
    "HOL-Library.List_Lexorder"
begin

section \<open>The part writer of MergedBlockOutputStream.cpp\<close>

text \<open>
  A shallow embedding of \<^verbatim>\<open>dbms/src/Storages/MergeTree/MergedBlockOutputStream.cpp\<close>:
  the column writer \<^verbatim>\<open>IMergedBlockOutputStream\<close> (\<^verbatim>\<open>addStream\<close>, \<^verbatim>\<open>addNullStream\<close>,
  \<^verbatim>\<open>writeData\<close>, \<^verbatim>\<open>ColumnStream\<close>), the full assembler \<^verbatim>\<open>MergedBlockOutputStream\<close> and
  the append-only assembler \<^verbatim>\<open>MergedColumnOnlyOutputStream\<close>.

  \<^item> \<^verbatim>\<open>size_t\<close> is a 64-bit word: \<open>+\<close> and \<open>-\<close> wrap, \<open>mod\<close> is the unsigned remainder.
  \<^item> A call has one of three outcomes: it returns (\<open>Done\<close>), it throws a
    \<^verbatim>\<open>DB::Exception\<close> (\<open>Throw\<close>, with the object as the throw leaves it), or its behaviour
    is undefined (\<open>Crash\<close>: a null \<^verbatim>\<open>unique_ptr\<close> is dereferenced, a row is read out of range,
    or \<^verbatim>\<open>%\<close> divides by zero).
  \<^item> The loops of the source are \<^theory_text>\<open>partial_function (option)\<close>: \<open>None\<close> is a loop that
    never ends.
  \<^item> The file system is the set of paths that exist; file contents live in the streams.
  \<^item> Buffers, serializers, hashes and name escaping are implemented outside this file
    (\<^verbatim>\<open>WriteBuffer\<close>, \<^verbatim>\<open>CompressedWriteBuffer\<close>, \<^verbatim>\<open>HashingWriteBuffer\<close>, \<^verbatim>\<open>IDataType\<close>,
    \<^verbatim>\<open>escapeForFileName\<close>, \<^verbatim>\<open>DataTypeNested\<close>); they are the fields of the record
    \<open>externals\<close>, a parameter of every function, so every theorem holds for every
    implementation of them.
\<close>

subsection \<open>Values, types, columns, blocks\<close>

type_synonym size_t = "64 word"

type_synonym CompressionMethod = nat

type_synonym filesystem = "string set"

datatype ErrorCode =
    NOT_IMPLEMENTED
  | BAD_ARGUMENTS
  | NOT_FOUND_COLUMN_IN_BLOCK
  | POSITION_OUT_OF_BOUND
  | SIZES_OF_COLUMNS_DOESNT_MATCH

datatype 'a outcome = Done 'a | Throw ErrorCode 'a | Crash

datatype Field = FNull | FUInt nat | FString string | FArray "Field list"

text \<open>\<^verbatim>\<open>isNullable()\<close> holds of \<open>DataTypeNullable\<close>; \<^verbatim>\<open>typeid_cast<const DataTypeArray *>\<close>
  succeeds on \<open>DataTypeArray\<close>; every other type is \<open>DataTypeOther\<close> with its name.\<close>

datatype IDataType =
    DataTypeNullable IDataType
  | DataTypeArray IDataType
  | DataTypeOther string

text \<open>A column is its rows; a \<^verbatim>\<open>ColumnNullable\<close> is the nested column
  (\<^verbatim>\<open>getNestedColumn\<close>) and the byte map of nulls (\<^verbatim>\<open>getNullValuesByteMap\<close>).\<close>

datatype IColumn =
    ColumnNullable IColumn IColumn
  | ColumnOther "Field list"

fun column_size :: "IColumn \<Rightarrow> size_t" where
  "column_size (ColumnNullable nested_col null_map) = column_size nested_col"
| "column_size (ColumnOther rows) = of_nat (length rows)"

fun column_row :: "IColumn \<Rightarrow> size_t \<Rightarrow> Field option" where
  "column_row (ColumnNullable nested_col null_map) i =
     (case column_row null_map i of
        None \<Rightarrow> None
      | Some (FUInt 0) \<Rightarrow> column_row nested_col i
      | Some _ \<Rightarrow> Some FNull)"
| "column_row (ColumnOther rows) i =
     (if unat i < length rows then Some (rows ! unat i) else None)"

record ColumnWithTypeAndName =
  cwt_column :: IColumn
  cwt_type :: IDataType
  cwt_name :: string

type_synonym Block = "ColumnWithTypeAndName list"

definition block_rows :: "Block \<Rightarrow> size_t" where
  "block_rows block = (case block of [] \<Rightarrow> 0 | c # _ \<Rightarrow> column_size (cwt_column c))"

definition block_columns :: "Block \<Rightarrow> size_t" where
  "block_columns block = of_nat (length block)"

definition getByName :: "Block \<Rightarrow> string \<Rightarrow> ErrorCode + ColumnWithTypeAndName" where
  "getByName block n =
     (case find (\<lambda>c. cwt_name c = n) block of
        None \<Rightarrow> Inl NOT_FOUND_COLUMN_IN_BLOCK
      | Some c \<Rightarrow> Inr c)"

definition getByPosition :: "Block \<Rightarrow> size_t \<Rightarrow> ErrorCode + ColumnWithTypeAndName" where
  "getByPosition block i =
     (if unat i < length block then Inr (block ! unat i) else Inl POSITION_OUT_OF_BOUND)"

subsection \<open>The storage and its settings\<close>

datatype MergingMode = Ordinary | Collapsing | Summing | Aggregating | Unsorted

record SortColumnDescription =
  column_name :: string
  column_number :: size_t

record MergeTreeData =
  index_granularity :: size_t
  merging_params_mode :: MergingMode
  getSortDescription :: "SortColumnDescription list"
  settings_min_compress_block_size :: size_t
  settings_max_compress_block_size :: size_t
  settings_min_bytes_to_use_direct_io :: size_t

subsection \<open>What is implemented outside the file\<close>

text \<open>\<open>'b\<close> is the state of the buffers of one \<^verbatim>\<open>ColumnStream\<close>: the chain
  \<^verbatim>\<open>plain_file\<close>, \<^verbatim>\<open>plain_hashing\<close>, \<^verbatim>\<open>compressed_buf\<close>, \<^verbatim>\<open>compressed\<close>.
  \<open>serializeBinary\<close> is the call \<^verbatim>\<open>type.serializeBinary(column, ostr, offset, limit)\<close>;
  \<open>serializeBinary_no_range\<close> is the call \<^verbatim>\<open>type.serializeBinary(column, ostr)\<close>, which
  passes no range.\<close>

record 'b externals =
  escapeForFileName :: "string \<Rightarrow> string"
  extractNestedTableName :: "string \<Rightarrow> string"
  toString :: "size_t \<Rightarrow> string"
  ARRAY_SIZES_COLUMN_NAME_SUFFIX :: string
  createWriteBuffers :: "string \<Rightarrow> size_t \<Rightarrow> size_t \<Rightarrow> size_t \<Rightarrow> CompressionMethod \<Rightarrow> 'b"
  compressed_offset :: "'b \<Rightarrow> size_t"
  compressed_next :: "'b \<Rightarrow> 'b"
  compressed_nextIfAtEnd :: "'b \<Rightarrow> 'b"
  compressed_count :: "'b \<Rightarrow> size_t"
  compressed_getHash :: "'b \<Rightarrow> nat"
  plain_hashing_count :: "'b \<Rightarrow> size_t"
  plain_hashing_getHash :: "'b \<Rightarrow> nat"
  plain_file_next :: "'b \<Rightarrow> 'b"
  plain_file_sync :: "'b \<Rightarrow> 'b"
  serializeBinary :: "IDataType \<Rightarrow> IColumn \<Rightarrow> size_t \<Rightarrow> size_t \<Rightarrow> 'b \<Rightarrow> 'b"
  serializeBinary_no_range :: "IDataType \<Rightarrow> IColumn \<Rightarrow> 'b \<Rightarrow> 'b"
  serializeOffsets :: "IColumn \<Rightarrow> size_t \<Rightarrow> size_t \<Rightarrow> 'b \<Rightarrow> 'b"
  marks_getHash :: "(size_t \<times> size_t) list \<Rightarrow> nat"
  index_count :: "Field list \<Rightarrow> size_t"
  index_getHash :: "Field list \<Rightarrow> nat"
  permute :: "IColumn \<Rightarrow> size_t list \<Rightarrow> ErrorCode + IColumn"

subsection \<open>ColumnStream\<close>

text \<open>\<open>marks\<close> is the content of the marks file: one pair per mark, each number written
  by \<^verbatim>\<open>writeIntBinary\<close> as 8 bytes.\<close>

record 'b ColumnStream =
  escaped_column_name :: string
  data_file_extension :: string
  marks_file_extension :: string
  buffers :: 'b
  marks :: "(size_t \<times> size_t) list"

definition DATA_FILE_EXTENSION :: string where "DATA_FILE_EXTENSION = ''.bin''"
definition NULL_MAP_EXTENSION :: string where "NULL_MAP_EXTENSION = ''.null''"
definition MARKS_FILE_EXTENSION :: string where "MARKS_FILE_EXTENSION = ''.mrk''"
definition NULL_MARKS_FILE_EXTENSION :: string where "NULL_MARKS_FILE_EXTENSION = ''.null_mrk''"

text \<open>The constructor opens (creates, truncates) the data file and the marks file.\<close>

definition new_ColumnStream ::
  "'b externals \<Rightarrow> string \<Rightarrow> string \<Rightarrow> string \<Rightarrow> string \<Rightarrow> string \<Rightarrow> size_t \<Rightarrow>
   CompressionMethod \<Rightarrow> size_t \<Rightarrow> size_t \<Rightarrow> 'b ColumnStream" where
  "new_ColumnStream ext escaped_column_name' data_path data_file_extension' marks_path
     marks_file_extension' max_compress_block_size' compression_method' estimated_size
     aio_threshold' =
     \<lparr>escaped_column_name = escaped_column_name',
      data_file_extension = data_file_extension',
      marks_file_extension = marks_file_extension',
      buffers = createWriteBuffers ext (data_path @ data_file_extension') estimated_size
                  aio_threshold' max_compress_block_size' compression_method',
      marks = []\<rparr>"

definition ColumnStream_files :: "string \<Rightarrow> string \<Rightarrow> string \<Rightarrow> string \<Rightarrow> filesystem" where
  "ColumnStream_files data_path data_file_extension' marks_path marks_file_extension' =
     {data_path @ data_file_extension', marks_path @ marks_file_extension'}"

definition finalize :: "'b externals \<Rightarrow> 'b ColumnStream \<Rightarrow> 'b ColumnStream" where
  "finalize ext stream =
     stream\<lparr>buffers := plain_file_next ext (compressed_next ext (buffers stream))\<rparr>"

definition sync :: "'b externals \<Rightarrow> 'b ColumnStream \<Rightarrow> 'b ColumnStream" where
  "sync ext stream = stream\<lparr>buffers := plain_file_sync ext (buffers stream)\<rparr>"

record Checksum =
  file_size :: size_t
  file_hash :: nat
  is_compressed :: bool
  uncompressed_size :: size_t
  uncompressed_hash :: nat

type_synonym Checksums = "string \<rightharpoonup> Checksum"

definition empty_Checksum :: Checksum where
  "empty_Checksum =
     \<lparr>file_size = 0, file_hash = 0, is_compressed = False,
      uncompressed_size = 0, uncompressed_hash = 0\<rparr>"

definition files_entry :: "Checksums \<Rightarrow> string \<Rightarrow> Checksum" where
  "files_entry checksums f = (case checksums f of None \<Rightarrow> empty_Checksum | Some c \<Rightarrow> c)"

definition addToChecksums ::
  "'b externals \<Rightarrow> 'b ColumnStream \<Rightarrow> string \<Rightarrow> Checksums \<Rightarrow> Checksums" where
  "addToChecksums ext stream name0 checksums =
     (let name = (if name0 = [] then escaped_column_name stream else name0);
          data_file = name @ data_file_extension stream;
          marks_file = name @ marks_file_extension stream;
          checksums1 = checksums(data_file \<mapsto> (files_entry checksums data_file)
             \<lparr>is_compressed := True,
              uncompressed_size := compressed_count ext (buffers stream),
              uncompressed_hash := compressed_getHash ext (buffers stream),
              file_size := plain_hashing_count ext (buffers stream),
              file_hash := plain_hashing_getHash ext (buffers stream)\<rparr>)
      in checksums1(marks_file \<mapsto> (files_entry checksums1 marks_file)
             \<lparr>file_size := 16 * of_nat (length (marks stream)),
              file_hash := marks_getHash ext (marks stream)\<rparr>))"

subsection \<open>IMergedBlockOutputStream\<close>

text \<open>The stream tables are \<^verbatim>\<open>std::map\<close>s from names to streams: association lists
  with one entry per key, read by \<open>map_of\<close>, written by \<open>AList.update\<close>, walked in
  the order of the keys.

  Modelled from the spec: the header that declares the members is not under src/; the
  carried \<open>index_offset\<close> starts at 0 (spec, P1: \<^verbatim>\<open>index_offset_1 = 0\<close>).\<close>

record 'b IMergedBlockOutputStream =
  storage :: MergeTreeData
  column_streams :: "(string \<times> 'b ColumnStream) list"
  null_streams :: "(string \<times> 'b ColumnStream) list"
  index_offset :: size_t
  min_compress_block_size :: size_t
  max_compress_block_size :: size_t
  aio_threshold :: size_t
  compression_method :: CompressionMethod

definition addNullStream ::
  "'b externals \<Rightarrow> string \<Rightarrow> string \<Rightarrow> size_t \<Rightarrow> string \<Rightarrow>
   ('b, 'z) IMergedBlockOutputStream_scheme \<times> filesystem \<Rightarrow>
   ('b, 'z) IMergedBlockOutputStream_scheme \<times> filesystem" where
  "addNullStream ext path name estimated_size filename wfs =
     (case wfs of (w, fs) \<Rightarrow>
       (let escaped_name =
              (if filename \<noteq> [] then escapeForFileName ext filename
               else escapeForFileName ext name)
        in (w\<lparr>null_streams := AList.update name
                 (new_ColumnStream ext escaped_name
                    (path @ escaped_name) NULL_MAP_EXTENSION
                    (path @ escaped_name) NULL_MARKS_FILE_EXTENSION
                    (max_compress_block_size w) (compression_method w)
                    estimated_size (aio_threshold w))
                 (null_streams w)\<rparr>,
            fs \<union> ColumnStream_files (path @ escaped_name) NULL_MAP_EXTENSION
                   (path @ escaped_name) NULL_MARKS_FILE_EXTENSION)))"

text \<open>\<^verbatim>\<open>addStream\<close>. The recursive call of the array branch passes no \<^verbatim>\<open>filename\<close>, so
  the declaration's default, the empty string, is used there.\<close>

fun addStream ::
  "'b externals \<Rightarrow> string \<Rightarrow> string \<Rightarrow> IDataType \<Rightarrow> size_t \<Rightarrow> size_t \<Rightarrow> string \<Rightarrow>
   ('b, 'z) IMergedBlockOutputStream_scheme \<times> filesystem \<Rightarrow>
   ('b, 'z) IMergedBlockOutputStream_scheme \<times> filesystem" where
  "addStream ext path name (DataTypeNullable nested_type) estimated_size level filename wfs =
     addStream ext path name nested_type estimated_size level filename
       (addNullStream ext path name estimated_size filename wfs)"
| "addStream ext path name (DataTypeArray nested_type) estimated_size level filename wfs =
     (case wfs of (w, fs) \<Rightarrow>
       (let size_name = extractNestedTableName ext name
              @ ARRAY_SIZES_COLUMN_NAME_SUFFIX ext @ toString ext level;
            escaped_size_name = escapeForFileName ext (extractNestedTableName ext name)
              @ ARRAY_SIZES_COLUMN_NAME_SUFFIX ext @ toString ext level
        in addStream ext path name nested_type estimated_size (level + 1) []
             (w\<lparr>column_streams := AList.update size_name
                   (new_ColumnStream ext escaped_size_name
                      (path @ escaped_size_name) DATA_FILE_EXTENSION
                      (path @ escaped_size_name) MARKS_FILE_EXTENSION
                      (max_compress_block_size w) (compression_method w)
                      estimated_size (aio_threshold w))
                   (column_streams w)\<rparr>,
              fs \<union> ColumnStream_files (path @ escaped_size_name) DATA_FILE_EXTENSION
                     (path @ escaped_size_name) MARKS_FILE_EXTENSION)))"
| "addStream ext path name (DataTypeOther t) estimated_size level filename wfs =
     (case wfs of (w, fs) \<Rightarrow>
       (let escaped_name =
              (if filename \<noteq> [] then escapeForFileName ext filename
               else escapeForFileName ext name)
        in (w\<lparr>column_streams := AList.update name
                 (new_ColumnStream ext escaped_name
                    (path @ escaped_name) DATA_FILE_EXTENSION
                    (path @ escaped_name) MARKS_FILE_EXTENSION
                    (max_compress_block_size w) (compression_method w)
                    estimated_size (aio_threshold w))
                 (column_streams w)\<rparr>,
            fs \<union> ColumnStream_files (path @ escaped_name) DATA_FILE_EXTENSION
                   (path @ escaped_name) MARKS_FILE_EXTENSION)))"

subsection \<open>writeData\<close>

text \<open>A mark is written in every iteration but a first one that finishes the granule of
  the previous block: the frame is closed first when the buffer holds at least
  \<^verbatim>\<open>min_compress_block_size\<close> bytes, then the two numbers are written.\<close>

definition write_mark :: "'b externals \<Rightarrow> size_t \<Rightarrow> 'b ColumnStream \<Rightarrow> 'b ColumnStream" where
  "write_mark ext min_compress_block_size' stream =
     (let b = (if compressed_offset ext (buffers stream) \<ge> min_compress_block_size'
               then compressed_next ext (buffers stream)
               else buffers stream)
      in stream\<lparr>buffers := b,
                marks := marks stream @ [(plain_hashing_count ext b, compressed_offset ext b)]\<rparr>)"

text \<open>The loop \<^verbatim>\<open>while (prev_mark < size)\<close>. The source has it three times, for the null
  map, for the array sizes and for the values; the three differ in the stream and in the
  call that serializes, here the argument \<open>serialize\<close>, which is given \<^verbatim>\<open>prev_mark\<close> and
  \<^verbatim>\<open>limit\<close>.\<close>

partial_function (option) write_granules ::
  "'b externals \<Rightarrow> (size_t \<Rightarrow> size_t \<Rightarrow> 'b \<Rightarrow> 'b) \<Rightarrow> size_t \<Rightarrow> size_t \<Rightarrow> size_t \<Rightarrow> size_t \<Rightarrow>
   size_t \<Rightarrow> 'b ColumnStream \<Rightarrow> 'b ColumnStream option" where
  "write_granules ext serialize size' index_offset' granularity min_compress_block_size'
     prev_mark stream =
     (if prev_mark < size' then
        (let limit = (if prev_mark = 0 \<and> index_offset' \<noteq> 0 then index_offset'
                      else granularity);
             stream1 = (if prev_mark = 0 \<and> index_offset' \<noteq> 0 then stream
                        else write_mark ext min_compress_block_size' stream);
             stream2 = stream1\<lparr>buffers := compressed_nextIfAtEnd ext
                          (serialize prev_mark limit (buffers stream1))\<rparr>
         in write_granules ext serialize size' index_offset' granularity
              min_compress_block_size' (prev_mark + limit) stream2)
      else Some stream)"

text \<open>The last block of \<^verbatim>\<open>writeData\<close>: the values of the column go to
  \<^verbatim>\<open>column_streams[name]\<close>.\<close>

definition write_values ::
  "'b externals \<Rightarrow> string \<Rightarrow> IDataType \<Rightarrow> IColumn \<Rightarrow>
   ('b, 'z) IMergedBlockOutputStream_scheme \<times> string set \<Rightarrow>
   (('b, 'z) IMergedBlockOutputStream_scheme \<times> string set) outcome option" where
  "write_values ext name type column wo =
     (case wo of (w, offset_columns) \<Rightarrow>
       (case map_of (column_streams w) name of
          None \<Rightarrow> Some Crash
        | Some stream \<Rightarrow>
           (case write_granules ext (serializeBinary ext type column) (column_size column)
                   (index_offset w) (index_granularity (storage w))
                   (min_compress_block_size w) 0 stream of
              None \<Rightarrow> None
            | Some stream' \<Rightarrow>
                Some (Done (w\<lparr>column_streams := AList.update name stream' (column_streams w)\<rparr>,
                            offset_columns)))))"

text \<open>The array branch: the sizes go to \<^verbatim>\<open>column_streams[size_name]\<close> unless
  \<^verbatim>\<open>offset_columns\<close> already has \<^verbatim>\<open>size_name\<close>.\<close>

definition write_sizes ::
  "'b externals \<Rightarrow> string \<Rightarrow> IColumn \<Rightarrow> size_t \<Rightarrow>
   ('b, 'z) IMergedBlockOutputStream_scheme \<times> string set \<Rightarrow>
   (('b, 'z) IMergedBlockOutputStream_scheme \<times> string set) outcome option" where
  "write_sizes ext name column level wo =
     (case wo of (w, offset_columns) \<Rightarrow>
       (let size_name = extractNestedTableName ext name
              @ ARRAY_SIZES_COLUMN_NAME_SUFFIX ext @ toString ext level
        in if size_name \<in> offset_columns then Some (Done (w, offset_columns))
           else
             (case map_of (column_streams w) size_name of
                None \<Rightarrow> Some Crash
              | Some stream \<Rightarrow>
                 (case write_granules ext (serializeOffsets ext column) (column_size column)
                         (index_offset w) (index_granularity (storage w))
                         (min_compress_block_size w) 0 stream of
                    None \<Rightarrow> None
                  | Some stream' \<Rightarrow>
                      Some (Done (w\<lparr>column_streams :=
                                      AList.update size_name stream' (column_streams w)\<rparr>,
                                  insert size_name offset_columns))))))"

text \<open>\<^verbatim>\<open>writeData\<close>. In the nullable branch the call
  \<^verbatim>\<open>DataTypeUInt8{}.serializeBinary(null_map, stream.compressed)\<close> passes neither
  \<^verbatim>\<open>prev_mark\<close> nor \<^verbatim>\<open>limit\<close>: every iteration makes the same call.\<close>

fun writeData ::
  "'b externals \<Rightarrow> string \<Rightarrow> IDataType \<Rightarrow> IColumn \<Rightarrow> size_t \<Rightarrow>
   ('b, 'z) IMergedBlockOutputStream_scheme \<times> string set \<Rightarrow>
   (('b, 'z) IMergedBlockOutputStream_scheme \<times> string set) outcome option" where
  "writeData ext name (DataTypeNullable nested_type) column level wo =
     (case wo of (w, offset_columns) \<Rightarrow>
       (case column of
          ColumnOther rows \<Rightarrow> Some Crash
        | ColumnNullable nested_col null_map \<Rightarrow>
           (case map_of (null_streams w) name of
              None \<Rightarrow> Some Crash
            | Some stream \<Rightarrow>
               (case write_granules ext
                       (\<lambda>prev_mark limit.
                          serializeBinary_no_range ext (DataTypeOther ''UInt8'') null_map)
                       (column_size column) (index_offset w) (index_granularity (storage w))
                       (min_compress_block_size w) 0 stream of
                  None \<Rightarrow> None
                | Some stream' \<Rightarrow>
                    writeData ext name nested_type nested_col level
                      (w\<lparr>null_streams := AList.update name stream' (null_streams w)\<rparr>,
                       offset_columns)))))"
| "writeData ext name (DataTypeArray nested_type) column level wo =
     (case write_sizes ext name column level wo of
        None \<Rightarrow> None
      | Some Crash \<Rightarrow> Some Crash
      | Some (Throw e wo1) \<Rightarrow> Some (Throw e wo1)
      | Some (Done wo1) \<Rightarrow> write_values ext name (DataTypeArray nested_type) column wo1)"
| "writeData ext name (DataTypeOther t) column level wo =
     write_values ext name (DataTypeOther t) column wo"

subsection \<open>MergedBlockOutputStream: construction\<close>

text \<open>Modelled from the spec: the header that declares the members is not under src/;
  \<open>marks_count\<close> starts at 0 (spec, scenario 6: with no block written the part is empty),
  \<open>index_stream\<close> starts as a null pointer and \<open>index_columns\<close> starts empty.\<close>

record 'b MergedBlockOutputStream = "'b IMergedBlockOutputStream" +
  columns_list :: "(string \<times> IDataType) list"
  part_path :: string
  marks_count :: size_t
  index_stream :: "Field list option"
  index_columns :: "Field list list"

text \<open>\<^verbatim>\<open>init\<close>: the directory is created; \<^verbatim>\<open>primary.idx\<close> is opened unless the mode is
  \<open>Unsorted\<close>.\<close>

definition init ::
  "'b MergedBlockOutputStream \<times> filesystem \<Rightarrow> 'b MergedBlockOutputStream \<times> filesystem" where
  "init wfs =
     (case wfs of (w, fs) \<Rightarrow>
       (let fs1 = insert (part_path w) fs
        in if merging_params_mode (storage w) \<noteq> Unsorted
           then (w\<lparr>index_stream := Some []\<rparr>, insert (part_path w @ ''primary.idx'') fs1)
           else (w, fs1)))"

text \<open>The members after the initializer list of the constructors, before their bodies.\<close>

definition initial_members ::
  "MergeTreeData \<Rightarrow> string \<Rightarrow> (string \<times> IDataType) list \<Rightarrow> CompressionMethod \<Rightarrow> size_t \<Rightarrow>
   'b MergedBlockOutputStream" where
  "initial_members storage' part_path' columns_list' compression_method' aio_threshold' =
     \<lparr>storage = storage',
      column_streams = [],
      null_streams = [],
      index_offset = 0,
      min_compress_block_size = settings_min_compress_block_size storage',
      max_compress_block_size = settings_max_compress_block_size storage',
      aio_threshold = aio_threshold',
      compression_method = compression_method',
      columns_list = columns_list',
      part_path = part_path',
      marks_count = 0,
      index_stream = None,
      index_columns = []\<rparr>"

text \<open>The first constructor: \<^verbatim>\<open>addStream(part_path, it.name, *it.type)\<close> for every column,
  with the declaration's defaults for the estimated size, the level and the file name.\<close>

definition MergedBlockOutputStream_new ::
  "'b externals \<Rightarrow> MergeTreeData \<Rightarrow> string \<Rightarrow> (string \<times> IDataType) list \<Rightarrow>
   CompressionMethod \<Rightarrow> filesystem \<Rightarrow> 'b MergedBlockOutputStream \<times> filesystem" where
  "MergedBlockOutputStream_new ext storage' part_path' columns_list' compression_method' fs =
     foldl (\<lambda>wfs it. addStream ext part_path' (fst it) (snd it) 0 0 [] wfs)
       (init (initial_members storage' part_path' columns_list' compression_method'
                (settings_min_bytes_to_use_direct_io storage'), fs))
       columns_list'"

text \<open>The second constructor, with the sizes of the merged columns and the threshold of
  asynchronous input and output.\<close>

definition MergedBlockOutputStream_new_sized ::
  "'b externals \<Rightarrow> MergeTreeData \<Rightarrow> string \<Rightarrow> (string \<times> IDataType) list \<Rightarrow>
   CompressionMethod \<Rightarrow> (string \<rightharpoonup> size_t) \<Rightarrow> size_t \<Rightarrow> filesystem \<Rightarrow>
   'b MergedBlockOutputStream \<times> filesystem" where
  "MergedBlockOutputStream_new_sized ext storage' part_path' columns_list' compression_method'
     merged_column_to_size aio_threshold' fs =
     foldl (\<lambda>wfs it.
              addStream ext part_path' (fst it) (snd it)
                (if aio_threshold (fst wfs) > 0
                 then (case merged_column_to_size (fst it) of None \<Rightarrow> 0 | Some s \<Rightarrow> s)
                 else 0)
                0 [] wfs)
       (init (initial_members storage' part_path' columns_list' compression_method'
                aio_threshold', fs))
       columns_list'"

subsection \<open>MergedBlockOutputStream: writing a block\<close>

text \<open>The first loop of \<^verbatim>\<open>writeImpl\<close>, over the sort description: the name of every
  sort-key column is entered into \<^verbatim>\<open>primary_columns_name_to_position\<close>, a second entry of a
  name throws, the column is fetched from the block and permuted.\<close>

fun primary_key_columns ::
  "'b externals \<Rightarrow> Block \<Rightarrow> size_t list option \<Rightarrow> SortColumnDescription list \<Rightarrow> size_t \<Rightarrow>
   ColumnWithTypeAndName list \<times> (string \<rightharpoonup> size_t) \<Rightarrow>
   ErrorCode + ColumnWithTypeAndName list \<times> (string \<rightharpoonup> size_t)" where
  "primary_key_columns ext block permutation [] i acc = Inr acc"
| "primary_key_columns ext block permutation (descr # rest) i acc =
     (case acc of (primary_columns, name_to_position) \<Rightarrow>
       (case (if column_name descr \<noteq> [] then Inr (column_name descr)
              else map_sum id cwt_name (getByPosition block (column_number descr))) of
          Inl e \<Rightarrow> Inl e
        | Inr name \<Rightarrow>
           if name_to_position name \<noteq> None then Inl BAD_ARGUMENTS
           else
             (case (if column_name descr \<noteq> [] then getByName block (column_name descr)
                    else getByPosition block (column_number descr)) of
                Inl e \<Rightarrow> Inl e
              | Inr c \<Rightarrow>
                 (case permutation of
                    None \<Rightarrow>
                      primary_key_columns ext block permutation rest (i + 1)
                        (primary_columns @ [c], name_to_position(name \<mapsto> i))
                  | Some p \<Rightarrow>
                     (case permute ext (cwt_column c) p of
                        Inl e \<Rightarrow> Inl e
                      | Inr permuted \<Rightarrow>
                          primary_key_columns ext block permutation rest (i + 1)
                            (primary_columns @ [c\<lparr>cwt_column := permuted\<rparr>],
                             name_to_position(name \<mapsto> i)))))))"

text \<open>The second loop of \<^verbatim>\<open>writeImpl\<close>, over \<^verbatim>\<open>columns_list\<close>: every column is fetched from
  the block by its name and written by \<^verbatim>\<open>writeData\<close> at level 0.\<close>

fun write_columns ::
  "'b externals \<Rightarrow> Block \<Rightarrow> size_t list option \<Rightarrow> ColumnWithTypeAndName list \<Rightarrow>
   (string \<rightharpoonup> size_t) \<Rightarrow> (string \<times> IDataType) list \<Rightarrow>
   'b MergedBlockOutputStream \<times> string set \<Rightarrow>
   ('b MergedBlockOutputStream \<times> string set) outcome option" where
  "write_columns ext block permutation primary_columns name_to_position [] wo = Some (Done wo)"
| "write_columns ext block permutation primary_columns name_to_position (it # rest) wo =
     (case getByName block (fst it) of
        Inl e \<Rightarrow> Some (Throw e wo)
      | Inr column \<Rightarrow>
         (case (case permutation of
                  None \<Rightarrow> Inr (cwt_column column)
                | Some p \<Rightarrow>
                   (case name_to_position (fst it) of
                      Some k \<Rightarrow> Inr (cwt_column (primary_columns ! unat k))
                    | None \<Rightarrow> permute ext (cwt_column column) p)) of
            Inl e \<Rightarrow> Some (Throw e wo)
          | Inr col \<Rightarrow>
             (case writeData ext (cwt_name column) (cwt_type column) col 0 wo of
                None \<Rightarrow> None
              | Some Crash \<Rightarrow> Some Crash
              | Some (Throw e wo1) \<Rightarrow> Some (Throw e wo1)
              | Some (Done wo1) \<Rightarrow>
                  write_columns ext block permutation primary_columns name_to_position
                    rest wo1)))"

text \<open>The body of the index loop when the mode is not \<open>Unsorted\<close>: the value of every
  sort-key column at row \<open>i\<close> is appended to \<^verbatim>\<open>index_columns[j]\<close> and serialized to
  \<^verbatim>\<open>*index_stream\<close>.\<close>

fun index_row ::
  "ColumnWithTypeAndName list \<Rightarrow> nat \<Rightarrow> size_t \<Rightarrow> 'b MergedBlockOutputStream \<Rightarrow>
   'b MergedBlockOutputStream outcome" where
  "index_row [] j i w = Done w"
| "index_row (primary_column # rest) j i w =
     (if length (index_columns w) \<le> j then Crash
      else
        (case column_row (cwt_column primary_column) i of
           None \<Rightarrow> Crash
         | Some v \<Rightarrow>
            (case index_stream w of
               None \<Rightarrow> Crash
             | Some idx \<Rightarrow>
                 index_row rest (j + 1) i
                   (w\<lparr>index_columns := (index_columns w)[j := index_columns w ! j @ [v]],
                      index_stream := Some (idx @ [v])\<rparr>))))"

text \<open>The index loop \<^verbatim>\<open>for (size_t i = index_offset; i < rows; i += storage.index_granularity)\<close>:
  \<^verbatim>\<open>++marks_count\<close> stands outside the test of the mode.\<close>

partial_function (option) write_index ::
  "ColumnWithTypeAndName list \<Rightarrow> size_t \<Rightarrow> size_t \<Rightarrow> 'b MergedBlockOutputStream \<Rightarrow>
   'b MergedBlockOutputStream outcome option" where
  "write_index primary_columns rows i w =
     (if i < rows then
        (case (if merging_params_mode (storage w) \<noteq> Unsorted
               then index_row primary_columns 0 i w else Done w) of
           Crash \<Rightarrow> Some Crash
         | Throw e w1 \<Rightarrow> Some (Throw e w1)
         | Done w1 \<Rightarrow>
             write_index primary_columns rows (i + index_granularity (storage w1))
               (w1\<lparr>marks_count := marks_count w1 + 1\<rparr>))
      else Some (Done w))"

definition writeImpl ::
  "'b externals \<Rightarrow> 'b MergedBlockOutputStream \<Rightarrow> Block \<Rightarrow> size_t list option \<Rightarrow>
   'b MergedBlockOutputStream outcome option" where
  "writeImpl ext w block permutation =
     (let rows = block_rows block;
          sort_description = getSortDescription (storage w)
      in case primary_key_columns ext block permutation sort_description 0 ([], Map.empty) of
           Inl e \<Rightarrow> Some (Throw e w)
         | Inr (primary_columns, name_to_position) \<Rightarrow>
            (let w1 = (if index_columns w = []
                       then w\<lparr>index_columns := replicate (length sort_description) []\<rparr>
                       else w)
             in case write_columns ext block permutation primary_columns name_to_position
                       (columns_list w1) (w1, {}) of
                  None \<Rightarrow> None
                | Some Crash \<Rightarrow> Some Crash
                | Some (Throw e (w2, offset_columns)) \<Rightarrow> Some (Throw e w2)
                | Some (Done (w2, offset_columns)) \<Rightarrow>
                   (case write_index primary_columns rows (index_offset w2) w2 of
                      None \<Rightarrow> None
                    | Some Crash \<Rightarrow> Some Crash
                    | Some (Throw e w3) \<Rightarrow> Some (Throw e w3)
                    | Some (Done w3) \<Rightarrow>
                       if index_granularity (storage w3) = 0 then Some Crash
                       else
                         (let written_for_last_mark =
                                (index_granularity (storage w3) - index_offset w3 + rows)
                                  mod index_granularity (storage w3)
                          in Some (Done (w3\<lparr>index_offset :=
                               (index_granularity (storage w3) - written_for_last_mark)
                                 mod index_granularity (storage w3)\<rparr>))))))"

text \<open>\<^verbatim>\<open>write\<close> and \<^verbatim>\<open>writeWithPermutation\<close>; the first is \<open>write_block\<close> here, its own
  name being a keyword of Isabelle.\<close>

definition write_block ::
  "'b externals \<Rightarrow> 'b MergedBlockOutputStream \<Rightarrow> Block \<Rightarrow>
   'b MergedBlockOutputStream outcome option" where
  "write_block ext w block = writeImpl ext w block None"

definition writeWithPermutation ::
  "'b externals \<Rightarrow> 'b MergedBlockOutputStream \<Rightarrow> Block \<Rightarrow> size_t list \<Rightarrow>
   'b MergedBlockOutputStream outcome option" where
  "writeWithPermutation ext w block permutation = writeImpl ext w block (Some permutation)"

definition writeSuffix :: "'b MergedBlockOutputStream \<Rightarrow> 'b MergedBlockOutputStream outcome" where
  "writeSuffix w = Throw NOT_IMPLEMENTED w"

subsection \<open>MergedBlockOutputStream: commit\<close>

text \<open>A stream table is walked in the order of its keys; every stream is finalized and
  entered into the checksums under its escaped column name.\<close>

definition finalize_streams ::
  "'b externals \<Rightarrow> (string \<times> 'b ColumnStream) list \<Rightarrow> Checksums \<Rightarrow> Checksums" where
  "finalize_streams ext streams checksums =
     foldl (\<lambda>cs it. addToChecksums ext (finalize ext (snd it)) [] cs) checksums
       (sort_key fst streams)"

text \<open>\<^verbatim>\<open>Poco::File(part_path).remove(true)\<close>: the directory goes, with everything in it.\<close>

definition remove_recursive :: "string \<Rightarrow> filesystem \<Rightarrow> filesystem" where
  "remove_recursive path fs = {f \<in> fs. \<not> prefix path f}"

definition writeSuffixAndGetChecksums ::
  "'b externals \<Rightarrow> 'b MergedBlockOutputStream \<Rightarrow> filesystem \<Rightarrow>
   (Checksums \<times> 'b MergedBlockOutputStream \<times> filesystem) outcome" where
  "writeSuffixAndGetChecksums ext w fs =
     (case (if merging_params_mode (storage w) \<noteq> Unsorted
            then (case index_stream w of
                    None \<Rightarrow> Crash
                  | Some idx \<Rightarrow>
                      Done (Map.empty(''primary.idx'' \<mapsto>
                              empty_Checksum\<lparr>file_size := index_count ext idx,
                                             file_hash := index_getHash ext idx\<rparr>),
                            w\<lparr>index_stream := None\<rparr>))
            else Done (Map.empty, w)) of
        Crash \<Rightarrow> Crash
      | Throw e cw \<Rightarrow> Throw e (fst cw, snd cw, fs)
      | Done (checksums1, w1) \<Rightarrow>
         (let checksums2 = finalize_streams ext (column_streams w1) checksums1;
              w2 = w1\<lparr>column_streams := []\<rparr>;
              checksums3 = finalize_streams ext (null_streams w2) checksums2;
              w3 = w2\<lparr>null_streams := []\<rparr>
          in if marks_count w3 = 0
             then Done (Map.empty, w3, remove_recursive (part_path w3) fs)
             else Done (checksums3, w3,
                        insert (part_path w3 @ ''checksums.txt'')
                          (insert (part_path w3 @ ''columns.txt'') fs))))"

subsection \<open>MergedColumnOnlyOutputStream\<close>

text \<open>Modelled from the spec: the header is not under src/; \<open>initialized\<close> starts false
  (spec, 4.7: the first \<^verbatim>\<open>write\<close> initializes the streams).\<close>

record 'b MergedColumnOnlyOutputStream = "'b IMergedBlockOutputStream" +
  only_part_path :: string
  only_sync :: bool
  initialized :: bool

definition MergedColumnOnlyOutputStream_new ::
  "MergeTreeData \<Rightarrow> string \<Rightarrow> bool \<Rightarrow> CompressionMethod \<Rightarrow> 'b MergedColumnOnlyOutputStream" where
  "MergedColumnOnlyOutputStream_new storage' part_path' sync' compression_method' =
     \<lparr>storage = storage',
      column_streams = [],
      null_streams = [],
      index_offset = 0,
      min_compress_block_size = settings_min_compress_block_size storage',
      max_compress_block_size = settings_max_compress_block_size storage',
      aio_threshold = settings_min_bytes_to_use_direct_io storage',
      compression_method = compression_method',
      only_part_path = part_path',
      only_sync = sync',
      initialized = False\<rparr>"

text \<open>The loop over the columns of the block, by position.\<close>

fun only_write_columns ::
  "'b externals \<Rightarrow> Block \<Rightarrow> 'b MergedColumnOnlyOutputStream \<times> string set \<Rightarrow>
   ('b MergedColumnOnlyOutputStream \<times> string set) outcome option" where
  "only_write_columns ext [] wo = Some (Done wo)"
| "only_write_columns ext (column # rest) wo =
     (case writeData ext (cwt_name column) (cwt_type column) (cwt_column column) 0 wo of
        None \<Rightarrow> None
      | Some Crash \<Rightarrow> Some Crash
      | Some (Throw e wo1) \<Rightarrow> Some (Throw e wo1)
      | Some (Done wo1) \<Rightarrow> only_write_columns ext rest wo1)"

definition only_write ::
  "'b externals \<Rightarrow> 'b MergedColumnOnlyOutputStream \<Rightarrow> Block \<Rightarrow> filesystem \<Rightarrow>
   ('b MergedColumnOnlyOutputStream \<times> filesystem) outcome option" where
  "only_write ext w block fs =
     (let wfs1 =
            (if \<not> initialized w
             then (case foldl (\<lambda>wfs c. addStream ext (only_part_path w) (cwt_name c) (cwt_type c)
                                          0 0 (cwt_name c) wfs)
                          (w\<lparr>null_streams := [], column_streams := []\<rparr>, fs) block of
                     (w', fs') \<Rightarrow> (w'\<lparr>initialized := True\<rparr>, fs'))
             else (w, fs));
          rows = block_rows block
      in case only_write_columns ext block (fst wfs1, {}) of
           None \<Rightarrow> None
         | Some Crash \<Rightarrow> Some Crash
         | Some (Throw e (w2, offset_columns)) \<Rightarrow> Some (Throw e (w2, snd wfs1))
         | Some (Done (w2, offset_columns)) \<Rightarrow>
            if index_granularity (storage w2) = 0 then Some Crash
            else
              (let written_for_last_mark =
                     (index_granularity (storage w2) - index_offset w2 + rows)
                       mod index_granularity (storage w2)
               in Some (Done (w2\<lparr>index_offset :=
                    (index_granularity (storage w2) - written_for_last_mark)
                      mod index_granularity (storage w2)\<rparr>, snd wfs1))))"

definition only_writeSuffix ::
  "'b MergedColumnOnlyOutputStream \<Rightarrow> 'b MergedColumnOnlyOutputStream outcome" where
  "only_writeSuffix w = Throw NOT_IMPLEMENTED w"

definition only_finalize_streams ::
  "'b externals \<Rightarrow> bool \<Rightarrow> (string \<times> 'b ColumnStream) list \<Rightarrow> Checksums \<Rightarrow> Checksums" where
  "only_finalize_streams ext sync' streams checksums =
     foldl (\<lambda>cs it.
              addToChecksums ext
                (if sync' then sync ext (finalize ext (snd it)) else finalize ext (snd it))
                (escapeForFileName ext (fst it)) cs)
       checksums (sort_key fst streams)"

definition only_writeSuffixAndGetChecksums ::
  "'b externals \<Rightarrow> 'b MergedColumnOnlyOutputStream \<Rightarrow>
   Checksums \<times> 'b MergedColumnOnlyOutputStream" where
  "only_writeSuffixAndGetChecksums ext w =
     (only_finalize_streams ext (only_sync w) (column_streams w)
        (only_finalize_streams ext (only_sync w) (null_streams w) Map.empty),
      w\<lparr>null_streams := [], column_streams := [], initialized := False\<rparr>)"

text \<open>The equations of the loops are their code equations.\<close>

declare write_granules.simps [code]
declare write_index.simps [code]

section \<open>The rows that get a mark\<close>

text \<open>The rows \<open>i\<close>, \<open>i + g\<close>, \<open>i + 2g\<close>, ... below \<open>rows\<close>, as natural numbers: the
  indices the spec gives for the marks of a block (\<open>i\<close> is the carried
  \<^verbatim>\<open>index_offset\<close>, \<open>g\<close> the granularity).\<close>

function mark_rows :: "nat \<Rightarrow> nat \<Rightarrow> nat \<Rightarrow> nat list" where
  "mark_rows i g rows = (if g = 0 \<or> rows \<le> i then [] else i # mark_rows (i + g) g rows)"
  by pat_completeness auto
termination
  by (relation "measure (\<lambda>(i, g, rows). rows - i)") auto

declare mark_rows.simps [simp del]

section \<open>Sequences of blocks, and the recurrence of the spec\<close>

text \<open>A caller writes the blocks of a part one after the other, each by \<^verbatim>\<open>write\<close> (no
  permutation) or by \<^verbatim>\<open>writeWithPermutation\<close>, and goes on while the calls return.\<close>

definition write_one ::
  "'b externals \<Rightarrow> 'b MergedBlockOutputStream \<Rightarrow> Block \<times> size_t list option \<Rightarrow>
   'b MergedBlockOutputStream outcome option" where
  "write_one ext w bp =
     (case snd bp of
        None \<Rightarrow> write_block ext w (fst bp)
      | Some permutation \<Rightarrow> writeWithPermutation ext w (fst bp) permutation)"

fun write_blocks ::
  "'b externals \<Rightarrow> 'b MergedBlockOutputStream \<Rightarrow> (Block \<times> size_t list option) list \<Rightarrow>
   'b MergedBlockOutputStream outcome option" where
  "write_blocks ext w [] = Some (Done w)"
| "write_blocks ext w (bp # rest) =
     (case write_one ext w bp of
        Some (Done w1) \<Rightarrow> write_blocks ext w1 rest
      | r \<Rightarrow> r)"

fun only_write_blocks ::
  "'b externals \<Rightarrow> 'b MergedColumnOnlyOutputStream \<Rightarrow> Block list \<Rightarrow> filesystem \<Rightarrow>
   ('b MergedColumnOnlyOutputStream \<times> filesystem) outcome option" where
  "only_write_blocks ext w [] fs = Some (Done (w, fs))"
| "only_write_blocks ext w (block # rest) fs =
     (case only_write ext w block fs of
        Some (Done (w1, fs1)) \<Rightarrow> only_write_blocks ext w1 rest fs1
      | r \<Rightarrow> r)"

text \<open>The recurrence of the spec (I5, P1) over the natural numbers: the offset carried to
  the next block, the offset after a sequence of blocks with the given numbers of rows,
  and the sum over the blocks of the number of marked rows.\<close>

definition next_index_offset :: "nat \<Rightarrow> nat \<Rightarrow> nat \<Rightarrow> nat" where
  "next_index_offset g index_offset' rows = (g - ((g - index_offset' + rows) mod g)) mod g"

fun spec_index_offset :: "nat \<Rightarrow> nat \<Rightarrow> nat list \<Rightarrow> nat" where
  "spec_index_offset g index_offset' [] = index_offset'"
| "spec_index_offset g index_offset' (rows # rest) =
     spec_index_offset g (next_index_offset g index_offset' rows) rest"

fun spec_marks_count :: "nat \<Rightarrow> nat \<Rightarrow> nat list \<Rightarrow> nat" where
  "spec_marks_count g index_offset' [] = 0"
| "spec_marks_count g index_offset' (rows # rest) =
     length (mark_rows index_offset' g rows)
       + spec_marks_count g (next_index_offset g index_offset' rows) rest"

section \<open>The iterations of the loop of writeData, in the words of the spec\<close>




section \<open>The sort key and the size streams, in the words of the spec\<close>

text \<open>The name a descriptor of the sort key resolves to, and the column it fetches from
  the block (permuted, when a permutation is given); \<open>None\<close> where the lookup or the
  permutation throws.\<close>

definition sort_key_name :: "Block \<Rightarrow> SortColumnDescription \<Rightarrow> string option" where
  "sort_key_name block descr =
     (if column_name descr \<noteq> [] then Some (column_name descr)
      else (case getByPosition block (column_number descr) of
              Inl e \<Rightarrow> None
            | Inr c \<Rightarrow> Some (cwt_name c)))"

definition sort_key_column ::
  "'b externals \<Rightarrow> Block \<Rightarrow> size_t list option \<Rightarrow> SortColumnDescription \<Rightarrow>
   ColumnWithTypeAndName option" where
  "sort_key_column ext block permutation descr =
     (case (if column_name descr \<noteq> [] then getByName block (column_name descr)
            else getByPosition block (column_number descr)) of
        Inl e \<Rightarrow> None
      | Inr c \<Rightarrow>
         (case permutation of
            None \<Rightarrow> Some c
          | Some p \<Rightarrow>
             (case permute ext (cwt_column c) p of
                Inl e \<Rightarrow> None
              | Inr permuted \<Rightarrow> Some (c\<lparr>cwt_column := permuted\<rparr>))))"


section \<open>What a step may change\<close>

text \<open>\<^verbatim>\<open>writeData\<close> changes the two stream tables and nothing else of the object.\<close>

definition streams_only ::
  "('b, 'z) IMergedBlockOutputStream_scheme \<Rightarrow> ('b, 'z) IMergedBlockOutputStream_scheme \<Rightarrow> bool" where
  "streams_only w w' \<longleftrightarrow>
     w' = w\<lparr>column_streams := column_streams w', null_streams := null_streams w'\<rparr>"

text \<open>The index loop changes \<open>marks_count\<close>, the index stream and the index columns.\<close>

definition index_only ::
  "'b MergedBlockOutputStream \<Rightarrow> 'b MergedBlockOutputStream \<Rightarrow> bool" where
  "index_only w w' \<longleftrightarrow>
     w' = w\<lparr>marks_count := marks_count w', index_stream := index_stream w',
            index_columns := index_columns w'\<rparr>"

section \<open>An implementation of the externals, to run the model\<close>

text \<open>Every row is one byte of a buffer, a serializer that is given a range writes the
  rows of the range that the column has (all from the offset on when the limit is 0), a
  serializer that is given no range writes the whole column, a frame is the list of its
  bytes and is stored as it is, the buffers remember the estimated size they were created with, the escaping
  of names is the identity, a nested name ends at its first dot, the suffix of the size
  streams is the spec's \<^verbatim>\<open>%size\<close>.\<close>

record ref_buffers =
  ref_estimated_size :: size_t
  ref_capacity :: nat
  ref_pending :: "Field list"
  ref_frames :: "Field list list"

fun decimal :: "nat \<Rightarrow> string" where
  "decimal n =
     (if n < 10 then [char_of (48 + n)] else decimal (n div 10) @ [char_of (48 + n mod 10)])"

declare decimal.simps [simp del]

fun ref_rows :: "IColumn \<Rightarrow> Field list" where
  "ref_rows (ColumnNullable nested_col null_map) = ref_rows nested_col"
| "ref_rows (ColumnOther rows) = rows"

definition ref_range :: "Field list \<Rightarrow> size_t \<Rightarrow> size_t \<Rightarrow> Field list" where
  "ref_range rows offs limit =
     (if limit = 0 \<or> length rows < unat offs + unat limit then drop (unat offs) rows
      else take (unat limit) (drop (unat offs) rows))"

definition ref_next :: "ref_buffers \<Rightarrow> ref_buffers" where
  "ref_next b =
     (if ref_pending b = [] then b
      else b\<lparr>ref_pending := [], ref_frames := ref_frames b @ [ref_pending b]\<rparr>)"

fun ref_permute :: "IColumn \<Rightarrow> size_t list \<Rightarrow> ErrorCode + IColumn" where
  "ref_permute (ColumnOther rows) p =
     (if length p \<noteq> length rows \<or> (\<exists>i \<in> set p. length rows \<le> unat i)
      then Inl SIZES_OF_COLUMNS_DOESNT_MATCH
      else Inr (ColumnOther (map (\<lambda>i. rows ! unat i) p)))"
| "ref_permute (ColumnNullable nested_col null_map) p =
     (case (ref_permute nested_col p, ref_permute null_map p) of
        (Inr c, Inr m) \<Rightarrow> Inr (ColumnNullable c m)
      | _ \<Rightarrow> Inl SIZES_OF_COLUMNS_DOESNT_MATCH)"

definition ref_ext :: "ref_buffers externals" where
  "ref_ext =
     \<lparr>escapeForFileName = (\<lambda>s. s),
      extractNestedTableName = takeWhile (\<lambda>c. c \<noteq> CHR ''.''),
      toString = (\<lambda>n. decimal (unat n)),
      ARRAY_SIZES_COLUMN_NAME_SUFFIX = ''%size'',
      createWriteBuffers = (\<lambda>path estimated_size aio max_block_size method.
         \<lparr>ref_estimated_size = estimated_size, ref_capacity = unat max_block_size,
          ref_pending = [], ref_frames = []\<rparr>),
      compressed_offset = (\<lambda>b. of_nat (length (ref_pending b))),
      compressed_next = ref_next,
      compressed_nextIfAtEnd = (\<lambda>b. if length (ref_pending b) = ref_capacity b then ref_next b else b),
      compressed_count = (\<lambda>b. of_nat (length (concat (ref_frames b)) + length (ref_pending b))),
      compressed_getHash = (\<lambda>b. 0),
      plain_hashing_count = (\<lambda>b. of_nat (length (concat (ref_frames b)))),
      plain_hashing_getHash = (\<lambda>b. 0),
      plain_file_next = (\<lambda>b. b),
      plain_file_sync = (\<lambda>b. b),
      serializeBinary = (\<lambda>type column offs limit b.
         b\<lparr>ref_pending := ref_pending b @ ref_range (ref_rows column) offs limit\<rparr>),
      serializeBinary_no_range = (\<lambda>type column b.
         b\<lparr>ref_pending := ref_pending b @ ref_rows column\<rparr>),
      serializeOffsets = (\<lambda>column offs limit b.
         b\<lparr>ref_pending := ref_pending b @ ref_range (ref_rows column) offs limit\<rparr>),
      marks_getHash = (\<lambda>ms. 0),
      index_count = (\<lambda>idx. of_nat (length idx)),
      index_getHash = (\<lambda>idx. 0),
      permute = ref_permute\<rparr>"

definition ref_storage :: MergeTreeData where
  "ref_storage =
     \<lparr>index_granularity = 2,
      merging_params_mode = Ordinary,
      getSortDescription = [\<lparr>column_name = ''n'', column_number = 0\<rparr>],
      settings_min_compress_block_size = 4,
      settings_max_compress_block_size = 8,
      settings_min_bytes_to_use_direct_io = 0\<rparr>"

definition ref_columns :: "(string \<times> IDataType) list" where
  "ref_columns = [(''n'', DataTypeOther ''UInt32'')]"

definition ref_block :: "nat list \<Rightarrow> Block" where
  "ref_block ns =
     [\<lparr>cwt_column = ColumnOther (map FUInt ns), cwt_type = DataTypeOther ''UInt32'',
       cwt_name = ''n''\<rparr>]"

definition ref_writer :: "ref_buffers MergedBlockOutputStream \<times> filesystem" where
  "ref_writer = MergedBlockOutputStream_new ref_ext ref_storage ''part/'' ref_columns 0 {}"

definition ref_stream :: "Field list \<Rightarrow> ref_buffers ColumnStream" where
  "ref_stream pending =
     \<lparr>escaped_column_name = ''n'', data_file_extension = ''.bin'',
      marks_file_extension = ''.mrk'',
      buffers = \<lparr>ref_estimated_size = 0, ref_capacity = 8, ref_pending = pending,
                 ref_frames = []\<rparr>,
      marks = []\<rparr>"

definition ref_unsorted_storage :: MergeTreeData where
  "ref_unsorted_storage = ref_storage\<lparr>merging_params_mode := Unsorted, getSortDescription := []\<rparr>"

definition ref_only_writer :: "ref_buffers MergedColumnOnlyOutputStream" where
  "ref_only_writer = MergedColumnOnlyOutputStream_new ref_storage ''part/'' False 0"

definition ref_unsorted_writer :: "ref_buffers MergedBlockOutputStream \<times> filesystem" where
  "ref_unsorted_writer =
     MergedBlockOutputStream_new ref_ext ref_unsorted_storage ''part/'' ref_columns 0 {}"

definition ref_bad_storage :: MergeTreeData where
  "ref_bad_storage =
     ref_storage\<lparr>index_granularity := 0, settings_min_compress_block_size := 9\<rparr>"

definition ref_nullable_writer :: "ref_buffers MergedBlockOutputStream" where
  "ref_nullable_writer =
     fst (MergedBlockOutputStream_new ref_ext ref_unsorted_storage ''part/''
            [(''x'', DataTypeNullable (DataTypeOther ''UInt8''))] 0 {})"

definition ref_nullable_column :: IColumn where
  "ref_nullable_column =
     ColumnNullable (ColumnOther [FUInt 7, FUInt 0, FUInt 9])
       (ColumnOther [FUInt 0, FUInt 1, FUInt 0])"

definition ref_duplicate_storage :: MergeTreeData where
  "ref_duplicate_storage =
     ref_storage\<lparr>getSortDescription :=
       [\<lparr>column_name = ''n'', column_number = 0\<rparr>, \<lparr>column_name = [], column_number = 0\<rparr>]\<rparr>"

definition ref_duplicate_writer :: "ref_buffers MergedBlockOutputStream" where
  "ref_duplicate_writer =
     fst (MergedBlockOutputStream_new ref_ext ref_duplicate_storage ''part/'' ref_columns 0 {})"




section \<open>Facts about the marked rows\<close>


lemma mark_rows_length:
  "0 < g \<Longrightarrow> length (mark_rows i g rows) = (rows - i + g - 1) div g"
proof (induction i g rows rule: mark_rows.induct)
  case (1 i g rows)
  show ?case
  proof (cases "rows \<le> i")
    case True
    with 1(2) show ?thesis by (subst mark_rows.simps) simp
  next
    case False
    with 1 have IH: "length (mark_rows (i + g) g rows) = (rows - (i + g) + g - 1) div g" by simp
    have "(rows - i + g - 1) div g = Suc ((rows - (i + g) + g - 1) div g)"
    proof (cases "rows \<le> i + g")
      case True
      with False 1(2) have "rows - i + g - 1 < 2 * g" "g \<le> rows - i + g - 1" by auto
      then have "(rows - i + g - 1) div g = 1"
        by (metis One_nat_def div_nat_eqI mult.commute mult_2 mult_Suc_right nat_mult_1_right)
      moreover from True 1(2) have "(rows - (i + g) + g - 1) div g = 0" by simp
      ultimately show ?thesis by simp
    next
      case False
      define x where "x = rows - (i + g) + g - 1"
      from False 1(2) have "rows - i + g - 1 = x + g" by (simp add: x_def)
      moreover have "(x + g) div g = Suc (x div g)" using 1(2) div_add_self2 [of g x] by simp
      ultimately show ?thesis by (simp add: x_def)
    qed
    with IH False 1(2) show ?thesis by (subst mark_rows.simps) simp
  qed
qed

lemma mark_rows_length_le: "length (mark_rows i g rows) \<le> rows - i"
proof (induction i g rows rule: mark_rows.induct)
  case (1 i g rows)
  show ?case
  proof (cases "g = 0 \<or> rows \<le> i")
    case True
    then show ?thesis by (subst mark_rows.simps) simp
  next
    case False
    with 1 have "length (mark_rows (i + g) g rows) \<le> rows - (i + g)" by simp
    with False show ?thesis by (subst mark_rows.simps) auto
  qed
qed

section \<open>What a write leaves unchanged\<close>

lemma streams_only_refl: "streams_only w w"
  by (simp add: streams_only_def)

lemma streams_only_ex:
  "streams_only w w' \<Longrightarrow> \<exists>cs ns. w' = w\<lparr>column_streams := cs, null_streams := ns\<rparr>"
  unfolding streams_only_def
  by (rule exI [of _ "column_streams w'"], rule exI [of _ "null_streams w'"])

lemma streams_only_trans:
  assumes "streams_only w w1" "streams_only w1 w2"
  shows "streams_only w w2"
proof -
  from streams_only_ex [OF assms(1)] obtain cs ns
    where 1: "w1 = w\<lparr>column_streams := cs, null_streams := ns\<rparr>" by blast
  from streams_only_ex [OF assms(2)] obtain cs' ns'
    where 2: "w2 = w1\<lparr>column_streams := cs', null_streams := ns'\<rparr>" by blast
  show ?thesis unfolding streams_only_def by (simp add: 1 2)
qed

lemma streams_only_column: "streams_only w (w\<lparr>column_streams := cs\<rparr>)"
  by (simp add: streams_only_def)

lemma streams_only_null: "streams_only w (w\<lparr>null_streams := cs\<rparr>)"
  by (simp add: streams_only_def)

lemma streams_only_fields:
  assumes "streams_only w w'"
  shows "storage w' = storage w \<and> index_offset w' = index_offset w \<and>
   min_compress_block_size w' = min_compress_block_size w \<and>
   max_compress_block_size w' = max_compress_block_size w \<and>
   aio_threshold w' = aio_threshold w \<and> compression_method w' = compression_method w"
proof -
  from streams_only_ex [OF assms] obtain cs ns
    where "w' = w\<lparr>column_streams := cs, null_streams := ns\<rparr>" by blast
  then show ?thesis by simp
qed

lemma streams_only_full:
  fixes w w' :: "'b MergedBlockOutputStream"
  assumes "streams_only w w'"
  shows "columns_list w' = columns_list w \<and> part_path w' = part_path w \<and>
   marks_count w' = marks_count w \<and> index_stream w' = index_stream w \<and>
   index_columns w' = index_columns w"
proof -
  from streams_only_ex [OF assms] obtain cs ns
    where "w' = w\<lparr>column_streams := cs, null_streams := ns\<rparr>" by blast
  then show ?thesis by simp
qed

lemma streams_only_append:
  fixes w w' :: "'b MergedColumnOnlyOutputStream"
  assumes "streams_only w w'"
  shows "only_part_path w' = only_part_path w \<and> only_sync w' = only_sync w \<and>
   initialized w' = initialized w"
proof -
  from streams_only_ex [OF assms] obtain cs ns
    where "w' = w\<lparr>column_streams := cs, null_streams := ns\<rparr>" by blast
  then show ?thesis by simp
qed

lemma write_values_streams_only:
  "write_values ext name type column (w, oc) = Some (Done (w', oc')) \<Longrightarrow> streams_only w w'"
  by (auto simp: write_values_def streams_only_column split: option.splits)

lemma write_values_no_throw:
  "write_values ext name type column (w, oc) \<noteq> Some (Throw e x)"
  by (auto simp: write_values_def split: option.splits)

lemma write_sizes_streams_only:
  "write_sizes ext name column level (w, oc) = Some (Done (w', oc')) \<Longrightarrow> streams_only w w'"
  by (auto simp: write_sizes_def Let_def streams_only_column streams_only_refl split: option.splits if_splits)

lemma write_sizes_no_throw:
  "write_sizes ext name column level (w, oc) \<noteq> Some (Throw e x)"
  by (auto simp: write_sizes_def Let_def split: option.splits if_splits)

lemma writeData_streams_only:
  "writeData ext name type column level (w, oc) = Some (Done (w', oc')) \<Longrightarrow> streams_only w w'"
proof (induction type arbitrary: column w oc)
  case (DataTypeNullable t)
  then show ?case
    by (auto split: IColumn.splits option.splits
        intro: streams_only_trans [OF streams_only_null])
next
  case (DataTypeArray t)
  then show ?case
    by (auto split: option.splits outcome.splits
        dest!: write_sizes_streams_only write_values_streams_only intro: streams_only_trans)
next
  case (DataTypeOther s)
  then show ?case by (auto dest: write_values_streams_only)
qed

lemma writeData_no_throw:
  "writeData ext name type column level (w, oc) \<noteq> Some (Throw e x)"
proof (induction type arbitrary: column w oc)
  case (DataTypeNullable t)
  then show ?case
    by (auto split: IColumn.splits option.splits)
next
  case (DataTypeArray t)
  then show ?case
    by (auto split: option.splits outcome.splits simp: write_values_no_throw write_sizes_no_throw)
next
  case (DataTypeOther s)
  then show ?case by (auto simp: write_values_no_throw)
qed

text \<open>\<^verbatim>\<open>addStream\<close> changes the stream tables and creates files.\<close>

lemma addNullStream_streams_only:
  "addNullStream ext path name est filename (w, fs) = (w', fs') \<Longrightarrow> streams_only w w' \<and> fs \<subseteq> fs'"
  by (auto simp: addNullStream_def Let_def streams_only_null)

lemma addStream_streams_only:
  "addStream ext path name type est level filename (w, fs) = (w', fs') \<Longrightarrow>
   streams_only w w' \<and> fs \<subseteq> fs'"
proof (induction type arbitrary: w fs level filename)
  case (DataTypeNullable t)
  obtain w1 fs1 where a: "addNullStream ext path name est filename (w, fs) = (w1, fs1)"
    by (cases "addNullStream ext path name est filename (w, fs)")
  with DataTypeNullable.prems have "addStream ext path name t est level filename (w1, fs1) = (w', fs')"
    by simp
  from DataTypeNullable.IH [OF this] addNullStream_streams_only [OF a]
  show ?case by (auto intro: streams_only_trans)
next
  case (DataTypeArray t)
  from DataTypeArray.prems show ?case
    by (auto simp: Let_def dest!: DataTypeArray.IH
        intro: streams_only_trans [OF streams_only_column])
next
  case (DataTypeOther s)
  then show ?case by (auto simp: Let_def streams_only_column)
qed

text \<open>What the constructors of the full assembler return.\<close>

lemma foldl_streams_only:
  assumes step: "\<And>w fs it w' fs'. step (w, fs) it = (w', fs') \<Longrightarrow> streams_only w w' \<and> fs \<subseteq> fs'"
  shows "foldl step (w, fs) xs = (w', fs') \<Longrightarrow> streams_only w w' \<and> fs \<subseteq> fs'"
proof (induction xs arbitrary: w fs)
  case Nil
  then show ?case by (simp add: streams_only_refl)
next
  case (Cons x xs)
  obtain w1 fs1 where s: "step (w, fs) x = (w1, fs1)" by (cases "step (w, fs) x")
  with Cons.prems have "foldl step (w1, fs1) xs = (w', fs')" by simp
  from Cons.IH [OF this] step [OF s] show ?case
    by (auto intro: streams_only_trans)
qed

lemma init_fields:
  "init (w, fs) = (w', fs') \<Longrightarrow>
   w' = w\<lparr>index_stream := (if merging_params_mode (storage w) \<noteq> Unsorted then Some []
                            else index_stream w)\<rparr> \<and>
   part_path w \<in> fs' \<and> fs \<subseteq> fs' \<and>
   (merging_params_mode (storage w) = Unsorted \<longrightarrow> fs' = insert (part_path w) fs)"
  by (auto simp: init_def Let_def split: if_splits)

lemma MergedBlockOutputStream_new_fields:
  fixes w :: "'b MergedBlockOutputStream"
  assumes "MergedBlockOutputStream_new ext st path cols m fs = (w, fs')"
  shows "storage w = st \<and> index_offset w = 0 \<and> marks_count w = 0 \<and>
    min_compress_block_size w = settings_min_compress_block_size st \<and>
    max_compress_block_size w = settings_max_compress_block_size st \<and>
    aio_threshold w = settings_min_bytes_to_use_direct_io st \<and>
    compression_method w = m \<and> columns_list w = cols \<and> part_path w = path \<and>
    index_columns w = [] \<and>
    index_stream w = (if merging_params_mode st \<noteq> Unsorted then Some [] else None) \<and>
    path \<in> fs' \<and> fs \<subseteq> fs'"
proof -
  define w0 :: "'b MergedBlockOutputStream"
    where "w0 = fst (init (initial_members st path cols m
      (settings_min_bytes_to_use_direct_io st), fs))"
  define fs0 where "fs0 = snd (init (initial_members st path cols m
      (settings_min_bytes_to_use_direct_io st) :: 'b MergedBlockOutputStream, fs))"
  have i: "init (initial_members st path cols m
      (settings_min_bytes_to_use_direct_io st), fs) = (w0, fs0)"
    by (simp add: w0_def fs0_def)
  from assms i have f: "foldl (\<lambda>wfs it. addStream ext path (fst it) (snd it) 0 0 [] wfs)
      (w0, fs0) cols = (w, fs')"
    by (simp add: MergedBlockOutputStream_new_def)
  have so: "streams_only w0 w \<and> fs0 \<subseteq> fs'"
    by (rule foldl_streams_only [OF _ f]) (rule addStream_streams_only)
  from init_fields [OF i] have w0: "w0 = (initial_members st path cols m
      (settings_min_bytes_to_use_direct_io st))\<lparr>index_stream :=
        (if merging_params_mode st \<noteq> Unsorted then Some [] else None)\<rparr>"
    and fs0: "path \<in> fs0" "fs \<subseteq> fs0"
    by (auto simp: initial_members_def)
  from so streams_only_fields [of w0 w] streams_only_full [of w0 w] fs0 show ?thesis
    by (auto simp: w0 initial_members_def)
qed

lemma MergedBlockOutputStream_new_sized_fields:
  fixes w :: "'b MergedBlockOutputStream"
  assumes "MergedBlockOutputStream_new_sized ext st path cols m sizes aio fs = (w, fs')"
  shows "storage w = st \<and> index_offset w = 0 \<and> marks_count w = 0 \<and>
    min_compress_block_size w = settings_min_compress_block_size st \<and>
    max_compress_block_size w = settings_max_compress_block_size st \<and>
    aio_threshold w = aio \<and>
    compression_method w = m \<and> columns_list w = cols \<and> part_path w = path \<and>
    index_columns w = [] \<and>
    index_stream w = (if merging_params_mode st \<noteq> Unsorted then Some [] else None) \<and>
    path \<in> fs' \<and> fs \<subseteq> fs'"
proof -
  define w0 :: "'b MergedBlockOutputStream"
    where "w0 = fst (init (initial_members st path cols m aio, fs))"
  define fs0 where "fs0 = snd (init (initial_members st path cols m aio
      :: 'b MergedBlockOutputStream, fs))"
  have i: "init (initial_members st path cols m aio, fs) = (w0, fs0)"
    by (simp add: w0_def fs0_def)
  from assms i have f: "foldl (\<lambda>wfs it. addStream ext path (fst it) (snd it)
                (if aio_threshold (fst wfs) > 0
                 then (case sizes (fst it) of None \<Rightarrow> 0 | Some s \<Rightarrow> s)
                 else 0) 0 [] wfs)
      (w0, fs0) cols = (w, fs')"
    by (simp add: MergedBlockOutputStream_new_sized_def)
  have so: "streams_only w0 w \<and> fs0 \<subseteq> fs'"
    by (rule foldl_streams_only [OF _ f]) (rule addStream_streams_only)
  from init_fields [OF i] have w0: "w0 = (initial_members st path cols m aio)\<lparr>index_stream :=
        (if merging_params_mode st \<noteq> Unsorted then Some [] else None)\<rparr>"
    and fs0: "path \<in> fs0" "fs \<subseteq> fs0"
    by (auto simp: initial_members_def)
  from so streams_only_fields [of w0 w] streams_only_full [of w0 w] fs0 show ?thesis
    by (auto simp: w0 initial_members_def)
qed

section \<open>The index loop and a whole write\<close>

lemma index_only_ex:
  "index_only w w' \<Longrightarrow>
   \<exists>mc idx ic. w' = w\<lparr>marks_count := mc, index_stream := idx, index_columns := ic\<rparr>"
  unfolding index_only_def
  by (rule exI [of _ "marks_count w'"], rule exI [of _ "index_stream w'"],
      rule exI [of _ "index_columns w'"])

lemma index_only_refl: "index_only w w"
  by (simp add: index_only_def)

lemma index_only_trans:
  assumes "index_only w w1" "index_only w1 w2"
  shows "index_only w w2"
proof -
  from index_only_ex [OF assms(1)] obtain mc idx ic
    where 1: "w1 = w\<lparr>marks_count := mc, index_stream := idx, index_columns := ic\<rparr>" by blast
  from index_only_ex [OF assms(2)] obtain mc' idx' ic'
    where 2: "w2 = w1\<lparr>marks_count := mc', index_stream := idx', index_columns := ic'\<rparr>" by blast
  show ?thesis unfolding index_only_def by (simp add: 1 2)
qed

lemma index_only_fields:
  assumes "index_only w w'"
  shows "storage w' = storage w \<and> index_offset w' = index_offset w \<and>
   column_streams w' = column_streams w \<and> null_streams w' = null_streams w \<and>
   min_compress_block_size w' = min_compress_block_size w \<and>
   max_compress_block_size w' = max_compress_block_size w \<and>
   aio_threshold w' = aio_threshold w \<and> compression_method w' = compression_method w \<and>
   columns_list w' = columns_list w \<and> part_path w' = part_path w"
proof -
  from index_only_ex [OF assms] obtain mc idx ic
    where "w' = w\<lparr>marks_count := mc, index_stream := idx, index_columns := ic\<rparr>" by blast
  then show ?thesis by simp
qed

lemma index_row_Done:
  "index_row pcs j i w = Done w' \<Longrightarrow> index_only w w' \<and> marks_count w' = marks_count w"
proof (induction pcs arbitrary: j w)
  case Nil
  then show ?case by (simp add: index_only_refl)
next
  case (Cons pc pcs)
  from Cons.prems obtain v idx where
    rec: "index_row pcs (j + 1) i
            (w\<lparr>index_columns := (index_columns w)[j := index_columns w ! j @ [v]],
               index_stream := Some (idx @ [v])\<rparr>) = Done w'"
    by (auto split: if_splits option.splits)
  have "index_only w (w\<lparr>index_columns := (index_columns w)[j := index_columns w ! j @ [v]],
               index_stream := Some (idx @ [v])\<rparr>)"
    by (simp add: index_only_def)
  with Cons.IH [OF rec] show ?case by (auto intro: index_only_trans)
qed

lemma index_row_no_throw: "index_row pcs j i w \<noteq> Throw e x"
  by (induction pcs arbitrary: j w) (auto split: option.splits)

lemma write_index_index_only:
  "write_index pcs rows i w = Some r \<Longrightarrow>
   (\<forall>w'. r = Done w' \<longrightarrow> index_only w w') \<and> (\<forall>e x. r \<noteq> Throw e x)"
proof (induction rule: write_index.raw_induct [rotated 1, consumes 1])
  case (1 write_index' pcs rows i w r)
  show ?case
  proof (cases "i < rows")
    case False
    with 1(2) show ?thesis by (auto simp: index_only_refl)
  next
    case True
    show ?thesis
    proof (cases "merging_params_mode (storage w) \<noteq> Unsorted")
      case True
      note sorted = this
      show ?thesis
      proof (cases "index_row pcs 0 i w")
        case (Done w1)
        with 1(2) \<open>i < rows\<close> sorted
        have rec: "write_index' pcs rows (i + index_granularity (storage w1))
                (w1\<lparr>marks_count := marks_count w1 + 1\<rparr>) = Some r" by simp
        have "index_only w1 (w1\<lparr>marks_count := marks_count w1 + 1\<rparr>)"
          by (simp add: index_only_def)
        with index_row_Done [OF Done]
        have "index_only w (w1\<lparr>marks_count := marks_count w1 + 1\<rparr>)"
          by (blast intro: index_only_trans)
        with 1(1) [OF rec] show ?thesis by (auto intro: index_only_trans)
      next
        case (Throw e x)
        then show ?thesis by (simp add: index_row_no_throw)
      next
        case Crash
        with 1(2) \<open>i < rows\<close> sorted show ?thesis by auto
      qed
    next
      case False
      with 1(2) \<open>i < rows\<close>
      have rec: "write_index' pcs rows (i + index_granularity (storage w))
                (w\<lparr>marks_count := marks_count w + 1\<rparr>) = Some r" by simp
      have "index_only w (w\<lparr>marks_count := marks_count w + 1\<rparr>)"
        by (simp add: index_only_def)
      with 1(1) [OF rec] show ?thesis by (auto intro: index_only_trans)
    qed
  qed
qed

lemma unat_step:
  fixes i g rows :: size_t
  assumes "i < rows" "unat rows + unat g < 2 ^ 64"
  shows "unat (i + g) = unat i + unat g"
proof -
  from assms have "unat i + unat g < 2 ^ LENGTH(64)"
    by (simp add: word_less_nat_alt)
  then show ?thesis by (simp only: unat_add_lem)
qed

lemma write_index_marks:
  assumes "write_index pcs rows i w = Some (Done w')"
    and "index_granularity (storage w) \<noteq> 0"
    and "unat rows + unat (index_granularity (storage w)) < 2 ^ 64"
  shows "marks_count w' = marks_count w
           + of_nat (length (mark_rows (unat i) (unat (index_granularity (storage w))) (unat rows)))"
  using assms
proof (induction "unat rows - unat i" arbitrary: i w rule: less_induct)
  case less
  define g where "g = index_granularity (storage w)"
  have g0: "0 < unat g" using less.prems(2) by (simp add: g_def unat_gt_0)
  show ?case
  proof (cases "i < rows")
    case False
    then have "unat rows \<le> unat i" by (simp add: word_less_nat_alt)
    then have "mark_rows (unat i) (unat g) (unat rows) = []"
      by (subst mark_rows.simps) simp
    moreover from False less.prems(1) have "w' = w"
      by (subst (asm) write_index.simps) simp
    ultimately show ?thesis by (simp add: g_def)
  next
    case True
    then have lt: "unat i < unat rows" by (simp add: word_less_nat_alt)
    from less.prems(1) True obtain w1 where
      w1: "(if merging_params_mode (storage w) \<noteq> Unsorted
            then index_row pcs 0 i w else Done w) = Done w1"
      and rec: "write_index pcs rows (i + index_granularity (storage w1))
                  (w1\<lparr>marks_count := marks_count w1 + 1\<rparr>) = Some (Done w')"
      by (subst (asm) write_index.simps) (auto split: outcome.splits)
    from w1 have same: "storage w1 = storage w" "marks_count w1 = marks_count w"
      by (auto split: if_splits dest!: index_row_Done dest: index_only_fields)
    have step: "unat (i + g) = unat i + unat g"
      using True less.prems(3) by (simp add: g_def unat_step)
    have "marks_count w' = marks_count (w1\<lparr>marks_count := marks_count w1 + 1\<rparr>)
           + of_nat (length (mark_rows (unat (i + g)) (unat g) (unat rows)))"
      using less.hyps [of "i + g" "w1\<lparr>marks_count := marks_count w1 + 1\<rparr>"]
        rec same less.prems(2,3) step g0 lt
      by (simp add: g_def)
    moreover have "mark_rows (unat i) (unat g) (unat rows)
        = unat i # mark_rows (unat (i + g)) (unat g) (unat rows)"
      using lt g0 step by (subst mark_rows.simps) simp
    ultimately show ?thesis by (simp add: same g_def)
  qed
qed

lemma write_index_unsorted:
  assumes "merging_params_mode (storage w) = Unsorted"
    and "index_granularity (storage w) \<noteq> 0"
    and "unat rows + unat (index_granularity (storage w)) < 2 ^ 64"
  shows "write_index pcs rows i w = Some (Done (w\<lparr>marks_count := marks_count w
           + of_nat (length (mark_rows (unat i) (unat (index_granularity (storage w))) (unat rows)))\<rparr>))"
  using assms
proof (induction "unat rows - unat i" arbitrary: i w rule: less_induct)
  case less
  define g where "g = index_granularity (storage w)"
  have g0: "0 < unat g" using less.prems(2) by (simp add: g_def unat_gt_0)
  show ?case
  proof (cases "i < rows")
    case False
    then have "unat rows \<le> unat i" by (simp add: word_less_nat_alt)
    then have "mark_rows (unat i) (unat g) (unat rows) = []"
      by (subst mark_rows.simps) simp
    with False show ?thesis
      by (subst write_index.simps) (simp add: g_def)
  next
    case True
    then have lt: "unat i < unat rows" by (simp add: word_less_nat_alt)
    have step: "unat (i + g) = unat i + unat g"
      using True less.prems(3) by (simp add: g_def unat_step)
    have mr: "mark_rows (unat i) (unat g) (unat rows)
        = unat i # mark_rows (unat (i + g)) (unat g) (unat rows)"
      using lt g0 step by (subst mark_rows.simps) simp
    have "write_index pcs rows (i + g) (w\<lparr>marks_count := marks_count w + 1\<rparr>)
        = Some (Done (w\<lparr>marks_count := marks_count w + 1\<rparr>\<lparr>marks_count := marks_count (w\<lparr>marks_count := marks_count w + 1\<rparr>)
           + of_nat (length (mark_rows (unat (i + g)) (unat g) (unat rows)))\<rparr>))"
      using less.hyps [of "i + g" "w\<lparr>marks_count := marks_count w + 1\<rparr>"]
        less.prems step g0 lt
      by (simp add: g_def)
    with True less.prems(1) show ?thesis
      by (subst write_index.simps) (simp add: g_def mr [unfolded g_def] add.assoc)
  qed
qed

lemma next_index_offset_less: "0 < g \<Longrightarrow> next_index_offset g io rows < g"
  by (simp add: next_index_offset_def)

lemma unat_next_index_offset:
  fixes g io rows :: size_t
  assumes g: "g \<noteq> 0" and io: "io \<le> g" and bound: "unat rows + unat g < 2 ^ 64"
  shows "unat ((g - ((g - io + rows) mod g)) mod g) = next_index_offset (unat g) (unat io) (unat rows)"
proof -
  have a: "unat (g - io) = unat g - unat io" using io by (simp add: unat_sub)
  have "unat (g - io) + unat rows < 2 ^ LENGTH(64)" using bound a by simp
  then have "unat (g - io + rows) = unat (g - io) + unat rows"
    by (simp only: unat_add_lem)
  then have b: "unat (g - io + rows) = unat g - unat io + unat rows"
    by (simp only: a)
  have c: "unat ((g - io + rows) mod g) = (unat g - unat io + unat rows) mod unat g"
    by (simp add: unat_mod b)
  have "(g - io + rows) mod g \<le> g"
    using g by (simp add: word_le_nat_alt unat_mod unat_gt_0 less_imp_le)
  then have d: "unat (g - (g - io + rows) mod g) = unat g - (unat g - unat io + unat rows) mod unat g"
    by (simp add: unat_sub c)
  show ?thesis by (simp add: unat_mod d next_index_offset_def)
qed

lemma write_columns_streams_only:
  "write_columns ext block perm pcs pos cols (w, oc) = Some r \<Longrightarrow>
   (\<forall>w' oc'. r = Done (w', oc') \<longrightarrow> streams_only w w') \<and>
   (\<forall>e w' oc'. r = Throw e (w', oc') \<longrightarrow> streams_only w w')"
proof (induction cols arbitrary: w oc)
  case Nil
  then show ?case by (auto simp: streams_only_refl)
next
  case (Cons it cols)
  show ?case
  proof (cases "getByName block (fst it)")
    case (Inl e)
    with Cons.prems show ?thesis by (auto simp: streams_only_refl)
  next
    case (Inr column)
    note col = this
    show ?thesis
    proof (cases "(case perm of
                  None \<Rightarrow> Inr (cwt_column column)
                | Some p \<Rightarrow>
                   (case pos (fst it) of
                      Some k \<Rightarrow> Inr (cwt_column (pcs ! unat k))
                    | None \<Rightarrow> permute ext (cwt_column column) p))")
      case (Inl e)
      with Cons.prems col show ?thesis by (auto simp: streams_only_refl)
    next
      case (Inr c)
      show ?thesis
      proof (cases "writeData ext (cwt_name column) (cwt_type column) c 0 (w, oc)")
        case None
        with Cons.prems col Inr show ?thesis by simp
      next
        case (Some r1)
        show ?thesis
        proof (cases r1)
          case (Done wo1)
          obtain w1 oc1 where wo1: "wo1 = (w1, oc1)" by (cases wo1)
          from Cons.prems col Inr Some Done wo1
          have "write_columns ext block perm pcs pos cols (w1, oc1) = Some r" by simp
          from Cons.IH [OF this] writeData_streams_only [OF Some [unfolded Done wo1]]
          show ?thesis by (auto intro: streams_only_trans)
        next
          case (Throw e x)
          with Some show ?thesis by (simp add: writeData_no_throw)
        next
          case Crash
          with Cons.prems col Inr Some show ?thesis by auto
        qed
      qed
    qed
  qed
qed

lemma writeImpl_Done_steps:
  assumes run: "writeImpl ext w block perm = Some (Done w')"
  obtains pcs pos w1 w2 oc w3 where
    "primary_key_columns ext block perm (getSortDescription (storage w)) 0 ([], Map.empty)
       = Inr (pcs, pos)"
    "w1 = (if index_columns w = []
           then w\<lparr>index_columns := replicate (length (getSortDescription (storage w))) []\<rparr>
           else w)"
    "write_columns ext block perm pcs pos (columns_list w1) (w1, {}) = Some (Done (w2, oc))"
    "write_index pcs (block_rows block) (index_offset w2) w2 = Some (Done w3)"
    "index_granularity (storage w3) \<noteq> 0"
    "w' = w3\<lparr>index_offset :=
            (index_granularity (storage w3)
              - (index_granularity (storage w3) - index_offset w3 + block_rows block)
                  mod index_granularity (storage w3))
            mod index_granularity (storage w3)\<rparr>"
proof -
  define w1 where "w1 = (if index_columns w = []
           then w\<lparr>index_columns := replicate (length (getSortDescription (storage w))) []\<rparr>
           else w)"
  show thesis
  proof (cases "primary_key_columns ext block perm (getSortDescription (storage w)) 0
                  ([], Map.empty)")
    case (Inl e)
    with run show ?thesis by (simp add: writeImpl_def)
  next
    case (Inr pp)
    obtain pcs pos where pp: "pp = (pcs, pos)" by (cases pp)
    note pk = Inr [unfolded pp]
    from run pk have run1:
      "(case write_columns ext block perm pcs pos (columns_list w1) (w1, {}) of
          None \<Rightarrow> None
        | Some Crash \<Rightarrow> Some Crash
        | Some (Throw e (w2, offset_columns)) \<Rightarrow> Some (Throw e w2)
        | Some (Done (w2, offset_columns)) \<Rightarrow>
           (case write_index pcs (block_rows block) (index_offset w2) w2 of
              None \<Rightarrow> None
            | Some Crash \<Rightarrow> Some Crash
            | Some (Throw e w3) \<Rightarrow> Some (Throw e w3)
            | Some (Done w3) \<Rightarrow>
               if index_granularity (storage w3) = 0 then Some Crash
               else Some (Done (w3\<lparr>index_offset :=
                       (index_granularity (storage w3)
                          - (index_granularity (storage w3) - index_offset w3 + block_rows block)
                              mod index_granularity (storage w3))
                         mod index_granularity (storage w3)\<rparr>)))) = Some (Done w')"
      unfolding writeImpl_def Let_def w1_def by (simp only: sum.case prod.case)
    then obtain w2 oc where
      wc: "write_columns ext block perm pcs pos (columns_list w1) (w1, {}) = Some (Done (w2, oc))"
      by (cases "write_columns ext block perm pcs pos (columns_list w1) (w1, {})")
         (auto split: outcome.splits prod.splits)
    from run1 wc have run2:
      "(case write_index pcs (block_rows block) (index_offset w2) w2 of
              None \<Rightarrow> None
            | Some Crash \<Rightarrow> Some Crash
            | Some (Throw e w3) \<Rightarrow> Some (Throw e w3)
            | Some (Done w3) \<Rightarrow>
               if index_granularity (storage w3) = 0 then Some Crash
               else Some (Done (w3\<lparr>index_offset :=
                       (index_granularity (storage w3)
                          - (index_granularity (storage w3) - index_offset w3 + block_rows block)
                              mod index_granularity (storage w3))
                         mod index_granularity (storage w3)\<rparr>))) = Some (Done w')"
      by (simp only: option.case outcome.case prod.case)
    then obtain w3 where
      wi: "write_index pcs (block_rows block) (index_offset w2) w2 = Some (Done w3)"
      by (cases "write_index pcs (block_rows block) (index_offset w2) w2")
         (auto split: outcome.splits)
    from run2 wi have g: "index_granularity (storage w3) \<noteq> 0"
      and w': "w' = w3\<lparr>index_offset :=
            (index_granularity (storage w3)
              - (index_granularity (storage w3) - index_offset w3 + block_rows block)
                  mod index_granularity (storage w3))
            mod index_granularity (storage w3)\<rparr>"
      by (auto split: if_splits)
    from that [OF pk w1_def wc wi g w'] show ?thesis .
  qed
qed

lemma writeImpl_Done:
  assumes run: "writeImpl ext w block perm = Some (Done w')"
  shows "index_granularity (storage w) \<noteq> 0 \<and>
    storage w' = storage w \<and> part_path w' = part_path w \<and> columns_list w' = columns_list w \<and>
    min_compress_block_size w' = min_compress_block_size w \<and>
    max_compress_block_size w' = max_compress_block_size w \<and>
    index_offset w' =
      (index_granularity (storage w)
         - (index_granularity (storage w) - index_offset w + block_rows block)
             mod index_granularity (storage w))
       mod index_granularity (storage w) \<and>
    (unat (block_rows block) + unat (index_granularity (storage w)) < 2 ^ 64 \<longrightarrow>
       marks_count w' = marks_count w
         + of_nat (length (mark_rows (unat (index_offset w))
                     (unat (index_granularity (storage w))) (unat (block_rows block)))) \<and>
       (merging_params_mode (storage w) = Unsorted \<longrightarrow> index_stream w' = index_stream w))"
proof -
  from run obtain pcs pos w1 w2 oc w3 where
    w1: "w1 = (if index_columns w = []
           then w\<lparr>index_columns := replicate (length (getSortDescription (storage w))) []\<rparr>
           else w)"
    and wc: "write_columns ext block perm pcs pos (columns_list w1) (w1, {}) = Some (Done (w2, oc))"
    and wi: "write_index pcs (block_rows block) (index_offset w2) w2 = Some (Done w3)"
    and g: "index_granularity (storage w3) \<noteq> 0"
    and w': "w' = w3\<lparr>index_offset :=
            (index_granularity (storage w3)
              - (index_granularity (storage w3) - index_offset w3 + block_rows block)
                  mod index_granularity (storage w3))
            mod index_granularity (storage w3)\<rparr>"
    by (rule writeImpl_Done_steps)
  have f1: "storage w1 = storage w" "index_offset w1 = index_offset w"
    "marks_count w1 = marks_count w" "part_path w1 = part_path w"
    "columns_list w1 = columns_list w" "index_stream w1 = index_stream w"
    "min_compress_block_size w1 = min_compress_block_size w"
    "max_compress_block_size w1 = max_compress_block_size w"
    by (simp_all add: w1)
  from write_columns_streams_only [OF wc] have so: "streams_only w1 w2" by simp
  from streams_only_fields [OF so] streams_only_full [OF so]
  have f2: "storage w2 = storage w" "index_offset w2 = index_offset w"
    "marks_count w2 = marks_count w" "part_path w2 = part_path w"
    "columns_list w2 = columns_list w" "index_stream w2 = index_stream w"
    "min_compress_block_size w2 = min_compress_block_size w"
    "max_compress_block_size w2 = max_compress_block_size w"
    by (simp_all only: f1)
  from write_index_index_only [OF wi] have io: "index_only w2 w3" by simp
  from index_only_fields [OF io]
  have f3: "storage w3 = storage w" "index_offset w3 = index_offset w"
    "part_path w3 = part_path w" "columns_list w3 = columns_list w"
    "min_compress_block_size w3 = min_compress_block_size w"
    "max_compress_block_size w3 = max_compress_block_size w"
    by (simp_all only: f2)
  have marks: "marks_count w3 = marks_count w
         + of_nat (length (mark_rows (unat (index_offset w))
                     (unat (index_granularity (storage w))) (unat (block_rows block))))"
    if b: "unat (block_rows block) + unat (index_granularity (storage w)) < 2 ^ 64"
  proof -
    have "index_granularity (storage w2) \<noteq> 0" using g by (simp add: f2 f3)
    moreover have "unat (block_rows block) + unat (index_granularity (storage w2)) < 2 ^ 64"
      using b by (simp add: f2)
    ultimately show ?thesis using write_index_marks [OF wi] by (simp add: f2)
  qed
  have idx: "index_stream w3 = index_stream w"
    if b: "unat (block_rows block) + unat (index_granularity (storage w)) < 2 ^ 64"
      and u: "merging_params_mode (storage w) = Unsorted"
  proof -
    have "merging_params_mode (storage w2) = Unsorted" using u by (simp add: f2)
    moreover have "index_granularity (storage w2) \<noteq> 0" using g by (simp add: f2 f3)
    moreover have "unat (block_rows block) + unat (index_granularity (storage w2)) < 2 ^ 64"
      using b by (simp add: f2)
    ultimately have "write_index pcs (block_rows block) (index_offset w2) w2
      = Some (Done (w2\<lparr>marks_count := marks_count w2
           + of_nat (length (mark_rows (unat (index_offset w2))
               (unat (index_granularity (storage w2))) (unat (block_rows block))))\<rparr>))"
      by (rule write_index_unsorted)
    with wi have "w3 = w2\<lparr>marks_count := marks_count w2
           + of_nat (length (mark_rows (unat (index_offset w2))
               (unat (index_granularity (storage w2))) (unat (block_rows block))))\<rparr>"
      by simp
    then have "index_stream w3 = index_stream w2" by simp
    then show ?thesis by (simp add: f2)
  qed
  have g': "index_granularity (storage w) \<noteq> 0" using g by (simp add: f3)
  have a: "storage w' = storage w" "part_path w' = part_path w" "columns_list w' = columns_list w"
    "min_compress_block_size w' = min_compress_block_size w"
    "max_compress_block_size w' = max_compress_block_size w"
    "marks_count w' = marks_count w3" "index_stream w' = index_stream w3"
    by (simp_all add: w' f3)
  have b: "index_offset w' =
      (index_granularity (storage w)
         - (index_granularity (storage w) - index_offset w + block_rows block)
             mod index_granularity (storage w))
       mod index_granularity (storage w)"
    by (simp add: w' f3)
  show ?thesis using g' a b marks idx by simp
qed

section \<open>The loop of writeData\<close>





section \<open>Sequences of writes\<close>

lemma write_one_writeImpl [simp]:
  "write_one ext w bp = writeImpl ext w (fst bp) (snd bp)"
  by (simp add: write_one_def write_block_def writeWithPermutation_def split: option.splits)

lemma index_row_open:
  "index_row pcs j i w = Done w' \<Longrightarrow> index_stream w \<noteq> None \<Longrightarrow> index_stream w' \<noteq> None"
proof (induction pcs arbitrary: j w)
  case Nil
  then show ?case by simp
next
  case (Cons pc pcs)
  from Cons.prems(1) obtain v idx where
    rec: "index_row pcs (j + 1) i
            (w\<lparr>index_columns := (index_columns w)[j := index_columns w ! j @ [v]],
               index_stream := Some (idx @ [v])\<rparr>) = Done w'"
    by (auto split: if_splits option.splits)
  from Cons.IH [OF rec] show ?case by simp
qed

lemma write_index_open:
  "write_index pcs rows i w = Some r \<Longrightarrow>
   (\<forall>w'. r = Done w' \<longrightarrow> index_stream w \<noteq> None \<longrightarrow> index_stream w' \<noteq> None)"
proof (induction rule: write_index.raw_induct [rotated 1, consumes 1])
  case (1 write_index' pcs rows i w r)
  show ?case
  proof (cases "i < rows")
    case False
    with 1(2) show ?thesis by auto
  next
    case True
    show ?thesis
    proof (cases "if merging_params_mode (storage w) \<noteq> Unsorted
                  then index_row pcs 0 i w else Done w")
      case (Done w1)
      with 1(2) True
      have rec: "write_index' pcs rows (i + index_granularity (storage w1))
                (w1\<lparr>marks_count := marks_count w1 + 1\<rparr>) = Some r" by simp
      from Done have "index_stream w \<noteq> None \<Longrightarrow> index_stream w1 \<noteq> None"
        by (auto split: if_splits dest: index_row_open)
      with 1(1) [OF rec] show ?thesis by simp
    next
      case (Throw e x)
      with 1(2) True show ?thesis by auto
    next
      case Crash
      with 1(2) True show ?thesis by auto
    qed
  qed
qed

lemma writeImpl_open:
  assumes run: "writeImpl ext w block perm = Some (Done w')"
    and "index_stream w \<noteq> None"
  shows "index_stream w' \<noteq> None"
proof -
  from run obtain pcs pos w1 w2 oc w3 where
    w1: "w1 = (if index_columns w = []
           then w\<lparr>index_columns := replicate (length (getSortDescription (storage w))) []\<rparr>
           else w)"
    and wc: "write_columns ext block perm pcs pos (columns_list w1) (w1, {}) = Some (Done (w2, oc))"
    and wi: "write_index pcs (block_rows block) (index_offset w2) w2 = Some (Done w3)"
    and w': "w' = w3\<lparr>index_offset :=
            (index_granularity (storage w3)
              - (index_granularity (storage w3) - index_offset w3 + block_rows block)
                  mod index_granularity (storage w3))
            mod index_granularity (storage w3)\<rparr>"
    by (rule writeImpl_Done_steps)
  have "index_stream w1 = index_stream w" by (simp add: w1)
  moreover from write_columns_streams_only [OF wc] have "streams_only w1 w2" by simp
  then have "index_stream w2 = index_stream w1" by (simp add: streams_only_full)
  ultimately have "index_stream w2 \<noteq> None" using assms(2) by simp
  with write_index_open [OF wi] have "index_stream w3 \<noteq> None" by simp
  then show ?thesis by (simp add: w')
qed

lemma next_index_offset_zero_rows:
  "io < g \<Longrightarrow> next_index_offset g io 0 = io"
  by (cases "io = 0") (simp_all add: next_index_offset_def)

lemma spec_marks_count_le: "spec_marks_count g io rs \<le> sum_list rs"
proof (induction rs arbitrary: io)
  case Nil
  then show ?case by simp
next
  case (Cons r rs)
  have "length (mark_rows io g r) \<le> r"
    using mark_rows_length_le [of io g r] by simp
  with Cons [of "next_index_offset g io r"] show ?case by simp
qed

lemma spec_marks_count_pos:
  "0 < g \<Longrightarrow> \<exists>r \<in> set rs. 0 < r \<Longrightarrow> 0 < spec_marks_count g 0 rs"
proof (induction rs)
  case Nil
  then show ?case by simp
next
  case (Cons r rs)
  show ?case
  proof (cases "r = 0")
    case True
    with Cons show ?thesis by (simp add: next_index_offset_zero_rows)
  next
    case False
    with Cons.prems(1) have "mark_rows 0 g r = 0 # mark_rows g g r"
      by (subst mark_rows.simps) simp
    then show ?thesis by simp
  qed
qed

lemma of_nat_size_t_nonzero:
  "0 < n \<Longrightarrow> n < 2 ^ 64 \<Longrightarrow> (of_nat n :: size_t) \<noteq> 0"
  by (auto simp: word_of_nat_eq_0_iff dest: dvd_imp_le)

lemma write_blocks_Done:
  assumes "write_blocks ext w blocks = Some (Done w')"
    and "index_offset w \<le> index_granularity (storage w)"
    and "\<forall>bp \<in> set blocks.
           unat (block_rows (fst bp)) + unat (index_granularity (storage w)) < 2 ^ 64"
  shows "storage w' = storage w \<and> part_path w' = part_path w \<and>
    columns_list w' = columns_list w \<and>
    unat (index_offset w') =
      spec_index_offset (unat (index_granularity (storage w))) (unat (index_offset w))
        (map (\<lambda>bp. unat (block_rows (fst bp))) blocks) \<and>
    marks_count w' = marks_count w
      + of_nat (spec_marks_count (unat (index_granularity (storage w))) (unat (index_offset w))
                  (map (\<lambda>bp. unat (block_rows (fst bp))) blocks)) \<and>
    (merging_params_mode (storage w) = Unsorted \<longrightarrow> index_stream w' = index_stream w) \<and>
    (index_stream w \<noteq> None \<longrightarrow> index_stream w' \<noteq> None)"
  using assms
proof (induction blocks arbitrary: w)
  case Nil
  then show ?case by simp
next
  case (Cons bp blocks)
  define g where "g = index_granularity (storage w)"
  from Cons.prems(1) obtain w1 where
    one: "writeImpl ext w (fst bp) (snd bp) = Some (Done w1)"
    and rest: "write_blocks ext w1 blocks = Some (Done w')"
    by (auto split: option.splits outcome.splits)
  from Cons.prems(3) have b: "unat (block_rows (fst bp)) + unat g < 2 ^ 64"
    by (simp add: g_def)
  note d = writeImpl_Done [OF one]
  from d have g0: "g \<noteq> 0" and st: "storage w1 = storage w"
    and off: "index_offset w1 = (g - (g - index_offset w + block_rows (fst bp)) mod g) mod g"
    and mc: "marks_count w1 = marks_count w
         + of_nat (length (mark_rows (unat (index_offset w)) (unat g)
                     (unat (block_rows (fst bp)))))"
    and un: "merging_params_mode (storage w) = Unsorted \<Longrightarrow> index_stream w1 = index_stream w"
    and pp: "part_path w1 = part_path w" "columns_list w1 = columns_list w"
    using b by (simp_all add: g_def)
  have off': "unat (index_offset w1)
      = next_index_offset (unat g) (unat (index_offset w)) (unat (block_rows (fst bp)))"
    using unat_next_index_offset [OF g0 _ b, of "index_offset w"] Cons.prems(2)
    by (simp add: off g_def)
  have "unat (index_offset w1) < unat g"
    using g0 by (simp add: off' next_index_offset_less unat_gt_0)
  then have le: "index_offset w1 \<le> index_granularity (storage w1)"
    by (simp add: st g_def word_le_nat_alt)
  have b': "\<forall>bp \<in> set blocks.
           unat (block_rows (fst bp)) + unat (index_granularity (storage w1)) < 2 ^ 64"
    using Cons.prems(3) by (simp add: st)
  from Cons.IH [OF rest le b'] writeImpl_open [OF one] show ?case
    by (simp add: st pp off' mc un g_def add.assoc)
qed

lemma only_write_columns_streams_only:
  "only_write_columns ext block (w, oc) = Some r \<Longrightarrow>
   (\<forall>w' oc'. r = Done (w', oc') \<longrightarrow> streams_only w w') \<and> (\<forall>e x. r \<noteq> Throw e x)"
proof (induction block arbitrary: w oc)
  case Nil
  then show ?case by (auto simp: streams_only_refl)
next
  case (Cons column rest)
  show ?case
  proof (cases "writeData ext (cwt_name column) (cwt_type column) (cwt_column column) 0 (w, oc)")
    case None
    with Cons.prems show ?thesis by simp
  next
    case (Some r1)
    show ?thesis
    proof (cases r1)
      case (Done wo1)
      obtain w1 oc1 where wo1: "wo1 = (w1, oc1)" by (cases wo1)
      from Cons.prems Some Done wo1
      have "only_write_columns ext rest (w1, oc1) = Some r" by simp
      from Cons.IH [OF this] writeData_streams_only [OF Some [unfolded Done wo1]]
      show ?thesis by (auto intro: streams_only_trans)
    next
      case (Throw e x)
      with Some show ?thesis by (simp add: writeData_no_throw)
    next
      case Crash
      with Cons.prems Some show ?thesis by auto
    qed
  qed
qed

lemma only_write_Done:
  assumes run: "only_write ext c block fs = Some (Done (c', fs'))"
  shows "index_granularity (storage c) \<noteq> 0 \<and> storage c' = storage c \<and>
    index_offset c' =
      (index_granularity (storage c)
         - (index_granularity (storage c) - index_offset c + block_rows block)
             mod index_granularity (storage c))
       mod index_granularity (storage c)"
proof -
  define wfs1 where "wfs1 =
            (if \<not> initialized c
             then (case foldl (\<lambda>wfs a. addStream ext (only_part_path c) (cwt_name a) (cwt_type a)
                                          0 0 (cwt_name a) wfs)
                          (c\<lparr>null_streams := [], column_streams := []\<rparr>, fs) block of
                     (w', fs') \<Rightarrow> (w'\<lparr>initialized := True\<rparr>, fs'))
             else (c, fs))"
  have f1: "storage (fst wfs1) = storage c \<and> index_offset (fst wfs1) = index_offset c"
  proof (cases "initialized c")
    case True
    then show ?thesis by (simp add: wfs1_def)
  next
    case False
    obtain wa fsa where fa: "foldl (\<lambda>wfs a. addStream ext (only_part_path c) (cwt_name a)
        (cwt_type a) 0 0 (cwt_name a) wfs)
        (c\<lparr>null_streams := [], column_streams := []\<rparr>, fs) block = (wa, fsa)"
      by (cases "foldl (\<lambda>wfs a. addStream ext (only_part_path c) (cwt_name a)
        (cwt_type a) 0 0 (cwt_name a) wfs)
        (c\<lparr>null_streams := [], column_streams := []\<rparr>, fs) block")
    have "streams_only (c\<lparr>null_streams := [], column_streams := []\<rparr>) wa \<and> fs \<subseteq> fsa"
      by (rule foldl_streams_only [OF _ fa]) (rule addStream_streams_only)
    then have "storage wa = storage c \<and> index_offset wa = index_offset c"
      using streams_only_fields [of "c\<lparr>null_streams := [], column_streams := []\<rparr>" wa]
      by simp
    with False fa show ?thesis by (simp add: wfs1_def)
  qed
  from run have run1:
    "(case only_write_columns ext block (fst wfs1, {}) of
           None \<Rightarrow> None
         | Some Crash \<Rightarrow> Some Crash
         | Some (Throw e (w2, offset_columns)) \<Rightarrow> Some (Throw e (w2, snd wfs1))
         | Some (Done (w2, offset_columns)) \<Rightarrow>
            if index_granularity (storage w2) = 0 then Some Crash
            else Some (Done (w2\<lparr>index_offset :=
                    (index_granularity (storage w2)
                       - (index_granularity (storage w2) - index_offset w2 + block_rows block)
                           mod index_granularity (storage w2))
                      mod index_granularity (storage w2)\<rparr>, snd wfs1))) = Some (Done (c', fs'))"
    unfolding only_write_def Let_def wfs1_def .
  then obtain w2 oc where
    wc: "only_write_columns ext block (fst wfs1, {}) = Some (Done (w2, oc))"
    by (cases "only_write_columns ext block (fst wfs1, {})")
       (auto split: outcome.splits prod.splits)
  from run1 wc have g: "index_granularity (storage w2) \<noteq> 0"
    and c': "c' = w2\<lparr>index_offset :=
                    (index_granularity (storage w2)
                       - (index_granularity (storage w2) - index_offset w2 + block_rows block)
                           mod index_granularity (storage w2))
                      mod index_granularity (storage w2)\<rparr>"
    by (auto split: if_splits)
  from only_write_columns_streams_only [OF wc] have "streams_only (fst wfs1) w2" by simp
  from streams_only_fields [OF this] f1
  have f2: "storage w2 = storage c" "index_offset w2 = index_offset c" by simp_all
  show ?thesis using g by (simp add: c' f2)
qed

lemma only_write_blocks_Done:
  assumes "only_write_blocks ext c blocks fs = Some (Done (c', fs'))"
    and "index_offset c \<le> index_granularity (storage c)"
    and "\<forall>b \<in> set blocks. unat (block_rows b) + unat (index_granularity (storage c)) < 2 ^ 64"
  shows "storage c' = storage c \<and>
    unat (index_offset c') =
      spec_index_offset (unat (index_granularity (storage c))) (unat (index_offset c))
        (map (\<lambda>b. unat (block_rows b)) blocks)"
  using assms
proof (induction blocks arbitrary: c fs)
  case Nil
  then show ?case by simp
next
  case (Cons block blocks)
  define g where "g = index_granularity (storage c)"
  from Cons.prems(1) obtain c1 fs1 where
    one: "only_write ext c block fs = Some (Done (c1, fs1))"
    and rest: "only_write_blocks ext c1 blocks fs1 = Some (Done (c', fs'))"
    by (auto split: option.splits outcome.splits prod.splits)
  from Cons.prems(3) have b: "unat (block_rows block) + unat g < 2 ^ 64"
    by (simp add: g_def)
  from only_write_Done [OF one] have g0: "g \<noteq> 0" and st: "storage c1 = storage c"
    and off: "index_offset c1 = (g - (g - index_offset c + block_rows block) mod g) mod g"
    by (simp_all add: g_def)
  have off': "unat (index_offset c1)
      = next_index_offset (unat g) (unat (index_offset c)) (unat (block_rows block))"
    using unat_next_index_offset [OF g0 _ b, of "index_offset c"] Cons.prems(2)
    by (simp add: off g_def)
  have "unat (index_offset c1) < unat g"
    using g0 by (simp add: off' next_index_offset_less unat_gt_0)
  then have le: "index_offset c1 \<le> index_granularity (storage c1)"
    by (simp add: st g_def word_le_nat_alt)
  have b': "\<forall>b \<in> set blocks.
           unat (block_rows b) + unat (index_granularity (storage c1)) < 2 ^ 64"
    using Cons.prems(3) by (simp add: st)
  from Cons.IH [OF rest le b'] show ?case
    by (simp add: st off' g_def)
qed

section \<open>The commit\<close>

lemma mark_rows_no_rows: "mark_rows i g 0 = []"
  by (subst mark_rows.simps) simp

lemma write_blocks_no_rows:
  assumes "write_blocks ext w blocks = Some (Done w')"
    and "\<forall>bp \<in> set blocks. block_rows (fst bp) = 0"
  shows "marks_count w' = marks_count w \<and> storage w' = storage w \<and>
    part_path w' = part_path w \<and>
    (merging_params_mode (storage w) = Unsorted \<or> index_stream w \<noteq> None \<longrightarrow>
     merging_params_mode (storage w') = Unsorted \<or> index_stream w' \<noteq> None)"
  using assms
proof (induction blocks arbitrary: w)
  case Nil
  then show ?case by simp
next
  case (Cons bp blocks)
  from Cons.prems(1) obtain w1 where
    one: "writeImpl ext w (fst bp) (snd bp) = Some (Done w1)"
    and rest: "write_blocks ext w1 blocks = Some (Done w')"
    by (auto split: option.splits outcome.splits)
  from Cons.prems(2) have r: "block_rows (fst bp) = 0" by simp
  have "unat (index_granularity (storage w)) < 2 ^ 64"
    using unsigned_less [of "index_granularity (storage w)", where ?'a = nat] by simp
  with writeImpl_Done [OF one] have "marks_count w1 = marks_count w"
    "storage w1 = storage w" "part_path w1 = part_path w"
    by (simp_all add: r mark_rows_no_rows)
  moreover from Cons.prems(2) have "\<forall>bp \<in> set blocks. block_rows (fst bp) = 0" by simp
  ultimately show ?case
    using Cons.IH [OF rest] writeImpl_open [OF one] by auto
qed

lemma commit_empty:
  assumes "marks_count w = 0"
    and "merging_params_mode (storage w) = Unsorted \<or> index_stream w \<noteq> None"
  shows "\<exists>w'. writeSuffixAndGetChecksums ext w fs
           = Done (Map.empty, w', remove_recursive (part_path w) fs)"
  using assms by (auto simp: writeSuffixAndGetChecksums_def Let_def)

lemma commit_nonempty:
  assumes "marks_count w \<noteq> 0"
    and "merging_params_mode (storage w) = Unsorted \<or> index_stream w \<noteq> None"
  shows "\<exists>checksums w'. writeSuffixAndGetChecksums ext w fs
           = Done (checksums, w',
               insert (part_path w @ ''checksums.txt'') (insert (part_path w @ ''columns.txt'') fs))"
  using assms by (auto simp: writeSuffixAndGetChecksums_def Let_def)

section \<open>The sort key\<close>

lemma sort_key_column_name:
  "sort_key_column ext block permutation descr \<noteq> None \<Longrightarrow> sort_key_name block descr \<noteq> None"
  by (auto simp: sort_key_column_def sort_key_name_def split: sum.splits if_splits)

lemma primary_key_columns_duplicate:
  assumes "\<forall>descr \<in> set sd. sort_key_column ext block permutation descr \<noteq> None"
    and "\<not> distinct (map (sort_key_name block) sd) \<or>
         (\<exists>descr \<in> set sd. \<exists>n. sort_key_name block descr = Some n \<and> pos n \<noteq> None)"
  shows "primary_key_columns ext block permutation sd i (pcs, pos) = Inl BAD_ARGUMENTS"
  using assms
proof (induction sd arbitrary: i pcs pos)
  case Nil
  then show ?case by simp
next
  case (Cons descr rest)
  from Cons.prems(1) have ok: "sort_key_column ext block permutation descr \<noteq> None"
    and oks: "\<forall>descr \<in> set rest. sort_key_column ext block permutation descr \<noteq> None"
    by simp_all
  from sort_key_column_name [OF ok] obtain n where n: "sort_key_name block descr = Some n"
    by auto
  then have name: "(if column_name descr \<noteq> [] then Inr (column_name descr)
              else map_sum id cwt_name (getByPosition block (column_number descr))) = Inr n"
    by (auto simp: sort_key_name_def split: if_splits sum.splits)
  show ?case
  proof (cases "pos n \<noteq> None")
    case True
    with name show ?thesis by (simp del: map_sum.simps)
  next
    case False
    then have free: "pos n = None" by simp
    from ok obtain c where c: "sort_key_column ext block permutation descr = Some c" by auto
    have dup: "\<not> distinct (map (sort_key_name block) rest) \<or>
         (\<exists>d \<in> set rest. \<exists>k. sort_key_name block d = Some k \<and> (pos(n \<mapsto> i)) k \<noteq> None)"
    proof -
      from Cons.prems(2) consider
        (a) "sort_key_name block descr \<in> set (map (sort_key_name block) rest)"
        | (b) "\<not> distinct (map (sort_key_name block) rest)"
        | (c) "\<exists>d \<in> set rest. \<exists>k. sort_key_name block d = Some k \<and> pos k \<noteq> None"
        using n free by auto
      then show ?thesis
      proof cases
        case a
        then obtain d where "d \<in> set rest" "sort_key_name block d = Some n"
          using n by auto
        then show ?thesis by auto
      next
        case b
        then show ?thesis by simp
      next
        case c
        then obtain d k where d: "d \<in> set rest" "sort_key_name block d = Some k"
          "pos k \<noteq> None" by auto
        with free have "k \<noteq> n" by auto
        with d have "(pos(n \<mapsto> i)) k \<noteq> None" by simp
        with d(1,2) show ?thesis by blast
      qed
    qed
    from c obtain c0 where fetch: "(if column_name descr \<noteq> [] then getByName block (column_name descr)
            else getByPosition block (column_number descr)) = Inr c0"
      by (auto simp: sort_key_column_def split: sum.splits)
    show ?thesis
    proof (cases permutation)
      case None
      with name free fetch
      have "primary_key_columns ext block permutation (descr # rest) i (pcs, pos)
          = primary_key_columns ext block permutation rest (i + 1)
              (pcs @ [c0], pos(n \<mapsto> i))"
        by (simp del: map_sum.simps)
      also have "\<dots> = Inl BAD_ARGUMENTS"
        by (rule Cons.IH [OF oks dup])
      finally show ?thesis .
    next
      case (Some p)
      with c fetch obtain permuted where "permute ext (cwt_column c0) p = Inr permuted"
        by (auto simp: sort_key_column_def split: sum.splits)
      with Some name free fetch
      have "primary_key_columns ext block permutation (descr # rest) i (pcs, pos)
          = primary_key_columns ext block permutation rest (i + 1)
              (pcs @ [c0\<lparr>cwt_column := permuted\<rparr>], pos(n \<mapsto> i))"
        by (simp del: map_sum.simps)
      also have "\<dots> = Inl BAD_ARGUMENTS"
        by (rule Cons.IH [OF oks dup])
      finally show ?thesis .
    qed
  qed
qed

section \<open>The streams of the array sizes\<close>








section \<open>Runs of the model on concrete blocks\<close>

lemma ref_run:
  "\<exists>w'. write_blocks ref_ext (fst ref_writer)
           [(ref_block [1, 2, 3], None), (ref_block [4, 5, 6, 7], None)] = Some (Done w')"
proof -
  have "case write_blocks ref_ext (fst ref_writer)
           [(ref_block [1, 2, 3], None), (ref_block [4, 5, 6, 7], None)] of
          Some (Done w') \<Rightarrow> True | _ \<Rightarrow> False"
    by code_simp
  then show ?thesis by (auto split: option.splits outcome.splits)
qed

lemma ref_only_run:
  "\<exists>c' fs'. only_write_blocks ref_ext ref_only_writer
           [ref_block [1, 2, 3], ref_block [4, 5, 6, 7]] {''part/''} = Some (Done (c', fs'))"
proof -
  have "case only_write_blocks ref_ext ref_only_writer
           [ref_block [1, 2, 3], ref_block [4, 5, 6, 7]] {''part/''} of
          Some (Done x) \<Rightarrow> True | _ \<Rightarrow> False"
    by code_simp
  then show ?thesis by (auto split: option.splits outcome.splits)
qed

lemma ref_rows: "block_rows (ref_block ns) = of_nat (length ns)"
  by (simp add: block_rows_def ref_block_def)

lemma ref_writer_fields:
  "storage (fst ref_writer) = ref_storage" "index_offset (fst ref_writer) = 0"
  "marks_count (fst ref_writer) = 0" "index_stream (fst ref_writer) = Some []"
  "part_path (fst ref_writer) = ''part/''"
  using MergedBlockOutputStream_new_fields [of ref_ext ref_storage "''part/''" ref_columns 0 "{}"
      "fst ref_writer" "snd ref_writer"]
  by (simp_all add: ref_writer_def ref_storage_def)

lemma ref_empty_run:
  "\<exists>w. write_blocks ref_ext (fst ref_writer) [(ref_block [], None)] = Some (Done w)"
proof -
  have "case write_blocks ref_ext (fst ref_writer) [(ref_block [], None)] of
          Some (Done w) \<Rightarrow> True | _ \<Rightarrow> False"
    by code_simp
  then show ?thesis by (auto split: option.splits outcome.splits)
qed

lemma ref_unsorted_run:
  "\<exists>w. write_blocks ref_ext (fst ref_unsorted_writer)
          [(ref_block [1, 2, 3], None), (ref_block [4, 5, 6, 7], None)] = Some (Done w)"
proof -
  have "case write_blocks ref_ext (fst ref_unsorted_writer)
          [(ref_block [1, 2, 3], None), (ref_block [4, 5, 6, 7], None)] of
          Some (Done w) \<Rightarrow> True | _ \<Rightarrow> False"
    by code_simp
  then show ?thesis by (auto split: option.splits outcome.splits)
qed


lemma ref_one_run:
  "\<exists>w1. writeImpl ref_ext (fst ref_writer) (ref_block [1, 2, 3]) None = Some (Done w1)"
proof -
  have "case writeImpl ref_ext (fst ref_writer) (ref_block [1, 2, 3]) None of
          Some (Done w1) \<Rightarrow> True | _ \<Rightarrow> False"
    by code_simp
  then show ?thesis by (auto split: option.splits outcome.splits)
qed

lemma ref_only_one_run:
  "\<exists>c1 fs1. only_write ref_ext ref_only_writer (ref_block [1, 2, 3]) {''part/''}
     = Some (Done (c1, fs1))"
proof -
  have "case only_write ref_ext ref_only_writer (ref_block [1, 2, 3]) {''part/''} of
          Some (Done x) \<Rightarrow> True | _ \<Rightarrow> False"
    by code_simp
  then show ?thesis by (auto split: option.splits outcome.splits)
qed


section \<open>The claims\<close>

subsection \<open>C1: the carried index offset and the number of marks\<close>

text \<open>C1. After every write of a block that returns, in the full assembler (\<^verbatim>\<open>write\<close>,
  \<^verbatim>\<open>writeWithPermutation\<close>) and in the append-only assembler, the carried \<^verbatim>\<open>index_offset\<close>
  is \<open>(g - ((g - index_offset + rows) mod g)) mod g\<close> in the arithmetic of \<^verbatim>\<open>size_t\<close>.
  Starting from \<^verbatim>\<open>index_offset = 0\<close>, after any sequence of blocks with fewer than
  \<open>2^64 - g\<close> rows each, the carried \<^verbatim>\<open>index_offset\<close> is the one the recurrence gives block
  by block over the natural numbers, and \<^verbatim>\<open>marks_count\<close> has grown by the sum over the
  blocks of the number of rows \<open>index_offset, index_offset + g, ...\<close> below the rows of the
  block; the append-only assembler, which has no \<^verbatim>\<open>marks_count\<close>, carries the same
  \<^verbatim>\<open>index_offset\<close>.\<close>

theorem index_offset_recurrence:
  "(writeImpl ext w block permutation = Some (Done w1) \<longrightarrow>
      index_offset w1 =
        (index_granularity (storage w)
           - (index_granularity (storage w) - index_offset w + block_rows block)
               mod index_granularity (storage w))
         mod index_granularity (storage w)) \<and>
   (only_write ext c only_block fs = Some (Done (c1, fs1)) \<longrightarrow>
      index_offset c1 =
        (index_granularity (storage c)
           - (index_granularity (storage c) - index_offset c + block_rows only_block)
               mod index_granularity (storage c))
         mod index_granularity (storage c)) \<and>
   (index_offset w = 0 \<and>
    (\<forall>bp \<in> set blocks.
       unat (block_rows (fst bp)) + unat (index_granularity (storage w)) < 2 ^ 64) \<and>
    write_blocks ext w blocks = Some (Done w') \<longrightarrow>
      unat (index_offset w') =
        spec_index_offset (unat (index_granularity (storage w))) 0
          (map (\<lambda>bp. unat (block_rows (fst bp))) blocks) \<and>
      marks_count w' = marks_count w
        + of_nat (spec_marks_count (unat (index_granularity (storage w))) 0
                    (map (\<lambda>bp. unat (block_rows (fst bp))) blocks))) \<and>
   (index_offset c = 0 \<and>
    (\<forall>b \<in> set only_blocks.
       unat (block_rows b) + unat (index_granularity (storage c)) < 2 ^ 64) \<and>
    only_write_blocks ext c only_blocks fs = Some (Done (c', fs')) \<longrightarrow>
      unat (index_offset c') =
        spec_index_offset (unat (index_granularity (storage c))) 0
          (map (\<lambda>b. unat (block_rows b)) only_blocks))"
proof (intro conjI impI)
  assume "writeImpl ext w block permutation = Some (Done w1)"
  from writeImpl_Done [OF this]
  show "index_offset w1 =
        (index_granularity (storage w)
           - (index_granularity (storage w) - index_offset w + block_rows block)
               mod index_granularity (storage w))
         mod index_granularity (storage w)"
    by simp
next
  assume "only_write ext c only_block fs = Some (Done (c1, fs1))"
  from only_write_Done [OF this]
  show "index_offset c1 =
        (index_granularity (storage c)
           - (index_granularity (storage c) - index_offset c + block_rows only_block)
               mod index_granularity (storage c))
         mod index_granularity (storage c)"
    by simp
next
  assume a: "index_offset w = 0 \<and>
    (\<forall>bp \<in> set blocks.
       unat (block_rows (fst bp)) + unat (index_granularity (storage w)) < 2 ^ 64) \<and>
    write_blocks ext w blocks = Some (Done w')"
  then have le: "index_offset w \<le> index_granularity (storage w)" by simp
  from a write_blocks_Done [of ext w blocks w', OF _ le]
  show "unat (index_offset w') =
        spec_index_offset (unat (index_granularity (storage w))) 0
          (map (\<lambda>bp. unat (block_rows (fst bp))) blocks)"
    and "marks_count w' = marks_count w
        + of_nat (spec_marks_count (unat (index_granularity (storage w))) 0
                    (map (\<lambda>bp. unat (block_rows (fst bp))) blocks))"
    by simp_all
next
  assume a: "index_offset c = 0 \<and>
    (\<forall>b \<in> set only_blocks.
       unat (block_rows b) + unat (index_granularity (storage c)) < 2 ^ 64) \<and>
    only_write_blocks ext c only_blocks fs = Some (Done (c', fs'))"
  then have le: "index_offset c \<le> index_granularity (storage c)" by simp
  from a only_write_blocks_Done [of ext c only_blocks fs c' fs', OF _ le]
  show "unat (index_offset c') =
        spec_index_offset (unat (index_granularity (storage c))) 0
          (map (\<lambda>b. unat (block_rows b)) only_blocks)"
    by simp
qed

theorem index_offset_recurrence_witness:
  "\<exists>w1 c1 fs1 w' c' fs'.
     writeImpl ref_ext (fst ref_writer) (ref_block [1, 2, 3]) None = Some (Done w1) \<and>
     only_write ref_ext ref_only_writer (ref_block [1, 2, 3]) {''part/''}
       = Some (Done (c1, fs1)) \<and>
     write_blocks ref_ext (fst ref_writer)
       [(ref_block [1, 2, 3], None), (ref_block [4, 5, 6, 7], None)] = Some (Done w') \<and>
     only_write_blocks ref_ext ref_only_writer
       [ref_block [1, 2, 3], ref_block [4, 5, 6, 7]] {''part/''} = Some (Done (c', fs')) \<and>
     index_offset w1 = (2 - (2 - 0 + 3) mod 2) mod 2 \<and>
     index_offset c1 = (2 - (2 - 0 + 3) mod 2) mod 2 \<and>
     unat (index_offset w') = spec_index_offset 2 0 [3, 4] \<and>
     marks_count w' = of_nat (spec_marks_count 2 0 [3, 4]) \<and>
     unat (index_offset c') = spec_index_offset 2 0 [3, 4]"
proof -
  from ref_one_run obtain w1 where
    w1: "writeImpl ref_ext (fst ref_writer) (ref_block [1, 2, 3]) None = Some (Done w1)" ..
  from ref_only_one_run obtain c1 fs1 where
    c1: "only_write ref_ext ref_only_writer (ref_block [1, 2, 3]) {''part/''}
       = Some (Done (c1, fs1))"
    by blast
  from ref_run obtain w' where
    w': "write_blocks ref_ext (fst ref_writer)
           [(ref_block [1, 2, 3], None), (ref_block [4, 5, 6, 7], None)] = Some (Done w')" ..
  from ref_only_run obtain c' fs' where
    c': "only_write_blocks ref_ext ref_only_writer
           [ref_block [1, 2, 3], ref_block [4, 5, 6, 7]] {''part/''} = Some (Done (c', fs'))"
    by blast
  have c0: "index_offset ref_only_writer = 0" "storage ref_only_writer = ref_storage"
    by (simp_all add: ref_only_writer_def MergedColumnOnlyOutputStream_new_def)
  have g: "index_granularity ref_storage = 2" by (simp add: ref_storage_def)
  note t = index_offset_recurrence [of ref_ext "fst ref_writer" "ref_block [1, 2, 3]" None w1
      ref_only_writer "ref_block [1, 2, 3]" "{''part/''}" c1 fs1
      "[(ref_block [1, 2, 3], None), (ref_block [4, 5, 6, 7], None)]" w'
      "[ref_block [1, 2, 3], ref_block [4, 5, 6, 7]]" c' fs']
  have "index_offset w1 = (2 - (2 - 0 + 3) mod 2) mod 2 \<and>
     index_offset c1 = (2 - (2 - 0 + 3) mod 2) mod 2 \<and>
     unat (index_offset w') = spec_index_offset 2 0 [3, 4] \<and>
     marks_count w' = of_nat (spec_marks_count 2 0 [3, 4]) \<and>
     unat (index_offset c') = spec_index_offset 2 0 [3, 4]"
    using t w1 c1 w' c' c0 g
    by (simp add: ref_writer_fields ref_rows del: spec_index_offset.simps spec_marks_count.simps)
  with w1 c1 w' c' show ?thesis by blast
qed

subsection \<open>C2: where the marks of a column fall\<close>



subsection \<open>C3: an empty part is removed\<close>

text \<open>C3. When \<^verbatim>\<open>marks_count\<close> is zero at the commit of the full assembler (the index
  stream being open, or the mode \<open>Unsorted\<close>), the part directory is removed with all it
  holds, the returned checksums are empty and neither \<^verbatim>\<open>columns.txt\<close> nor
  \<^verbatim>\<open>checksums.txt\<close> exists afterwards; this is so after any sequence of blocks without
  rows (the empty sequence included) written to a writer whose \<^verbatim>\<open>marks_count\<close> is zero.\<close>

theorem empty_part_is_removed:
  assumes "marks_count w0 = 0"
    and "\<forall>bp \<in> set blocks. block_rows (fst bp) = 0"
    and "write_blocks ext w0 blocks = Some (Done w)"
    and "merging_params_mode (storage w0) = Unsorted \<or> index_stream w0 \<noteq> None"
  shows "marks_count w = 0 \<and>
    (\<exists>w'. writeSuffixAndGetChecksums ext w fs
             = Done (Map.empty, w', remove_recursive (part_path w0) fs)) \<and>
    part_path w0 \<notin> remove_recursive (part_path w0) fs \<and>
    part_path w0 @ ''columns.txt'' \<notin> remove_recursive (part_path w0) fs \<and>
    part_path w0 @ ''checksums.txt'' \<notin> remove_recursive (part_path w0) fs"
proof -
  from write_blocks_no_rows [OF assms(3) assms(2)] assms(1,4)
  have a: "marks_count w = 0" "part_path w = part_path w0"
    "merging_params_mode (storage w) = Unsorted \<or> index_stream w \<noteq> None"
    by auto
  from commit_empty [OF a(1) a(3), of ext fs] a(1,2) show ?thesis
    by (simp add: remove_recursive_def)
qed

theorem empty_part_is_removed_witness:
  "\<exists>w. marks_count (fst ref_writer) = 0 \<and>
     block_rows (ref_block []) = 0 \<and>
     write_blocks ref_ext (fst ref_writer) [(ref_block [], None)] = Some (Done w) \<and>
     index_stream (fst ref_writer) \<noteq> None \<and>
     marks_count w = 0 \<and>
     (\<exists>w'. writeSuffixAndGetChecksums ref_ext w (snd ref_writer)
               = Done (Map.empty, w', remove_recursive ''part/'' (snd ref_writer))) \<and>
     ''part/'' \<in> snd ref_writer \<and>
     ''part/'' \<notin> remove_recursive ''part/'' (snd ref_writer) \<and>
     ''part/columns.txt'' \<notin> remove_recursive ''part/'' (snd ref_writer) \<and>
     ''part/checksums.txt'' \<notin> remove_recursive ''part/'' (snd ref_writer)"
proof -
  from ref_empty_run obtain w where
    w: "write_blocks ref_ext (fst ref_writer) [(ref_block [], None)] = Some (Done w)" ..
  have p: "''part/'' \<in> snd ref_writer" by code_simp
  from empty_part_is_removed [of "fst ref_writer" "[(ref_block [], None)]" ref_ext w
      "snd ref_writer"] p w
  show ?thesis by (simp add: ref_writer_fields ref_rows)
qed

subsection \<open>C4: one stream of array sizes for a nested group\<close>




subsection \<open>C5: the frame and the mark\<close>

text \<open>C5, as amended. When a mark is written the frame is closed first if and only if the
  buffer of the frame holds at least \<^verbatim>\<open>min_compress_block_size\<close> bytes (the test of the
  source is \<^verbatim>\<open>>=\<close>); the mark is the count of the bytes of the file and the offset in the
  frame after that; below the threshold the mark is the current offset in the open
  frame.\<close>

theorem write_mark_frame:
  "buffers (write_mark ext min_block_size stream) =
     (if min_block_size \<le> compressed_offset ext (buffers stream)
      then compressed_next ext (buffers stream) else buffers stream) \<and>
   marks (write_mark ext min_block_size stream) =
     marks stream @
       [(plain_hashing_count ext (buffers (write_mark ext min_block_size stream)),
         compressed_offset ext (buffers (write_mark ext min_block_size stream)))] \<and>
   (compressed_offset ext (buffers stream) < min_block_size \<longrightarrow>
      last (marks (write_mark ext min_block_size stream)) =
        (plain_hashing_count ext (buffers stream), compressed_offset ext (buffers stream)))"
  by (auto simp: write_mark_def Let_def)


theorem write_mark_frame_witness:
  "compressed_offset ref_ext (buffers (ref_stream [FUInt 1, FUInt 2])) < 4 \<and>
   buffers (write_mark ref_ext 4 (ref_stream [FUInt 1, FUInt 2]))
     = buffers (ref_stream [FUInt 1, FUInt 2]) \<and>
   last (marks (write_mark ref_ext 4 (ref_stream [FUInt 1, FUInt 2]))) = (0, 2)"
proof -
  have a: "compressed_offset ref_ext (buffers (ref_stream [FUInt 1, FUInt 2])) < 4"
    by (simp add: ref_ext_def ref_stream_def)
  have b: "plain_hashing_count ref_ext (buffers (ref_stream [FUInt 1, FUInt 2])) = 0"
    "compressed_offset ref_ext (buffers (ref_stream [FUInt 1, FUInt 2])) = 2"
    by (simp_all add: ref_ext_def ref_stream_def)
  from a b write_mark_frame [of ref_ext 4 "ref_stream [FUInt 1, FUInt 2]"]
  show ?thesis by simp
qed

text \<open>C5 as stated fails where the buffer holds exactly the threshold: 4 bytes do not
  exceed 4, yet the frame is closed and the mark is at offset 0 of the next frame.\<close>

theorem write_mark_at_threshold_counterexample:
  "\<not> (4 < compressed_offset ref_ext
            (buffers (ref_stream [FUInt 1, FUInt 2, FUInt 3, FUInt 4]))) \<and>
   buffers (write_mark ref_ext 4 (ref_stream [FUInt 1, FUInt 2, FUInt 3, FUInt 4]))
     = \<lparr>ref_estimated_size = 0, ref_capacity = 8, ref_pending = [],
        ref_frames = [[FUInt 1, FUInt 2, FUInt 3, FUInt 4]]\<rparr> \<and>
   marks (write_mark ref_ext 4 (ref_stream [FUInt 1, FUInt 2, FUInt 3, FUInt 4])) = [(4, 0)]"
  by (simp add: write_mark_def ref_ext_def ref_stream_def ref_next_def)

subsection \<open>C6: the null map of a nullable column\<close>

text \<open>C6 fails on the code. A nullable column of 3 rows is written with granularity 2 and
  \<^verbatim>\<open>index_offset\<close> 0: the loop of the null map runs twice and makes the same call, without
  a range, in each iteration; with a serializer that then writes the whole column the
  null stream receives the map of 3 bytes twice, 6 bytes in all, where the claim has rows
  \<open>[0, 2)\<close> and \<open>[2, 3)\<close>, 3 bytes in all; the second mark of the null stream, at offset
  3, is where the second copy of the whole map begins. The values of the same column are
  written in ranges, 3 in all.\<close>

theorem null_map_written_whole_in_every_iteration:
  "column_size ref_nullable_column = 3 \<and>
   index_granularity (storage ref_nullable_writer) = 2 \<and>
   index_offset ref_nullable_writer = 0 \<and>
   (case writeData ref_ext ''x'' (DataTypeNullable (DataTypeOther ''UInt8''))
           ref_nullable_column 0 (ref_nullable_writer, {}) of
      Some (Done (w', offset_columns)) \<Rightarrow>
        map_option (\<lambda>stream. (ref_pending (buffers stream), marks stream,
                               compressed_count ref_ext (buffers stream)))
          (map_of (null_streams w') ''x'')
          = Some ([FUInt 0, FUInt 1, FUInt 0, FUInt 0, FUInt 1, FUInt 0], [(0, 0), (0, 3)], 6) \<and>
        map_option (\<lambda>stream. (ref_pending (buffers stream), marks stream,
                               compressed_count ref_ext (buffers stream)))
          (map_of (column_streams w') ''x'')
          = Some ([FUInt 7, FUInt 0, FUInt 9], [(0, 0), (0, 2)], 3)
    | _ \<Rightarrow> False)"
  by code_simp

subsection \<open>C7: a duplicate column of the sort key\<close>

text \<open>C7. When every descriptor of the sort key resolves (its column is in the block and,
  with a permutation, can be permuted) and two descriptors resolve to the same name, the
  write throws \<^verbatim>\<open>BAD_ARGUMENTS\<close> and the writer is as it was before the call: no stream has
  received anything.\<close>

theorem duplicate_sort_key_throws:
  assumes "\<forall>descr \<in> set (getSortDescription (storage w)).
             sort_key_column ext block permutation descr \<noteq> None"
    and "\<not> distinct (map (sort_key_name block) (getSortDescription (storage w)))"
  shows "writeImpl ext w block permutation = Some (Throw BAD_ARGUMENTS w)"
proof -
  have "primary_key_columns ext block permutation (getSortDescription (storage w)) 0
          ([], Map.empty) = Inl BAD_ARGUMENTS"
    using assms by (intro primary_key_columns_duplicate) simp_all
  then show ?thesis by (simp add: writeImpl_def)
qed

theorem duplicate_sort_key_throws_witness:
  "map (\<lambda>descr. sort_key_column ref_ext (ref_block [1, 2, 3]) (Some [2, 0, 1]) descr \<noteq> None)
       (getSortDescription (storage ref_duplicate_writer)) = [True, True] \<and>
   map (sort_key_name (ref_block [1, 2, 3])) (getSortDescription (storage ref_duplicate_writer))
     = [Some ''n'', Some ''n''] \<and>
   writeImpl ref_ext ref_duplicate_writer (ref_block [1, 2, 3]) (Some [2, 0, 1])
     = Some (Throw BAD_ARGUMENTS ref_duplicate_writer)"
proof -
  have st: "storage ref_duplicate_writer = ref_duplicate_storage"
    using MergedBlockOutputStream_new_fields [of ref_ext ref_duplicate_storage "''part/''"
        ref_columns 0 "{}" ref_duplicate_writer
        "snd (MergedBlockOutputStream_new ref_ext ref_duplicate_storage ''part/'' ref_columns 0 {})"]
    by (simp add: ref_duplicate_writer_def)
  have h1: "\<forall>descr \<in> set (getSortDescription (storage ref_duplicate_writer)).
      sort_key_column ref_ext (ref_block [1, 2, 3]) (Some [2, 0, 1]) descr \<noteq> None"
    by (simp add: st ref_duplicate_storage_def ref_storage_def sort_key_column_def
        getByName_def getByPosition_def ref_block_def ref_ext_def)
  have names: "map (sort_key_name (ref_block [1, 2, 3]))
      (getSortDescription (storage ref_duplicate_writer)) = [Some ''n'', Some ''n'']"
    by (simp add: st ref_duplicate_storage_def ref_storage_def sort_key_name_def
        getByPosition_def ref_block_def)
  then have h2: "\<not> distinct (map (sort_key_name (ref_block [1, 2, 3]))
      (getSortDescription (storage ref_duplicate_writer)))"
    by simp
  have oks: "map (\<lambda>descr. sort_key_column ref_ext (ref_block [1, 2, 3]) (Some [2, 0, 1]) descr
        \<noteq> None) (getSortDescription (storage ref_duplicate_writer)) = [True, True]"
    by (simp add: st ref_duplicate_storage_def ref_storage_def sort_key_column_def
        getByName_def getByPosition_def ref_block_def ref_ext_def)
  from duplicate_sort_key_throws [OF h1 h2] oks names show ?thesis by (intro conjI)
qed

subsection \<open>C8: writeSuffix is not supported\<close>

text \<open>C8. \<^verbatim>\<open>writeSuffix\<close> of the full assembler and of the append-only assembler always
  throws \<^verbatim>\<open>NOT_IMPLEMENTED\<close> and leaves the writer as it was; the commit is
  \<^verbatim>\<open>writeSuffixAndGetChecksums\<close>, which returns whenever the index stream is open or the
  mode is \<open>Unsorted\<close>.\<close>

theorem writeSuffix_not_implemented:
  "writeSuffix w = Throw NOT_IMPLEMENTED w \<and>
   only_writeSuffix c = Throw NOT_IMPLEMENTED c \<and>
   (merging_params_mode (storage w) = Unsorted \<or> index_stream w \<noteq> None \<longrightarrow>
      (\<exists>checksums w' fs'. writeSuffixAndGetChecksums ext w fs = Done (checksums, w', fs')))"
  by (auto simp: writeSuffix_def only_writeSuffix_def writeSuffixAndGetChecksums_def Let_def)

theorem writeSuffix_not_implemented_witness:
  "index_stream (fst ref_writer) \<noteq> None \<and>
   writeSuffix (fst ref_writer) = Throw NOT_IMPLEMENTED (fst ref_writer) \<and>
   only_writeSuffix (MergedColumnOnlyOutputStream_new ref_storage ''part/'' False 0
       :: ref_buffers MergedColumnOnlyOutputStream)
     = Throw NOT_IMPLEMENTED (MergedColumnOnlyOutputStream_new ref_storage ''part/'' False 0) \<and>
   (\<exists>checksums w' fs'.
      writeSuffixAndGetChecksums ref_ext (fst ref_writer) (snd ref_writer)
        = Done (checksums, w', fs'))"
proof -
  have a: "index_stream (fst ref_writer) \<noteq> None"
    by code_simp
  with writeSuffix_not_implemented [of "fst ref_writer"
      "MergedColumnOnlyOutputStream_new ref_storage ''part/'' False 0" ref_ext "snd ref_writer"]
  show ?thesis by simp
qed

subsection \<open>C9: construction validates nothing\<close>

text \<open>C9, as amended. The constructors validate nothing: for every storage, whatever its
  granularity and its thresholds of the compressed block, the two constructors of the full
  assembler and the constructor of the append-only assembler return a writer that holds
  the storage and the thresholds as given. With granularity zero no write of such a
  writer returns.\<close>

theorem construction_validates_nothing:
  "storage (fst (MergedBlockOutputStream_new ext st path cols m fs)) = st \<and>
   min_compress_block_size (fst (MergedBlockOutputStream_new ext st path cols m fs))
     = settings_min_compress_block_size st \<and>
   max_compress_block_size (fst (MergedBlockOutputStream_new ext st path cols m fs))
     = settings_max_compress_block_size st \<and>
   storage (fst (MergedBlockOutputStream_new_sized ext st path cols m sizes aio fs)) = st \<and>
   min_compress_block_size (fst (MergedBlockOutputStream_new_sized ext st path cols m sizes aio fs))
     = settings_min_compress_block_size st \<and>
   max_compress_block_size (fst (MergedBlockOutputStream_new_sized ext st path cols m sizes aio fs))
     = settings_max_compress_block_size st \<and>
   MergedColumnOnlyOutputStream_new st path sync' m =
     \<lparr>storage = st, column_streams = [], null_streams = [], index_offset = 0,
      min_compress_block_size = settings_min_compress_block_size st,
      max_compress_block_size = settings_max_compress_block_size st,
      aio_threshold = settings_min_bytes_to_use_direct_io st,
      compression_method = m, only_part_path = path, only_sync = sync',
      initialized = False\<rparr> \<and>
   (index_granularity st = 0 \<longrightarrow>
      writeImpl ext (fst (MergedBlockOutputStream_new ext st path cols m fs)) block permutation
        \<noteq> Some (Done w') \<and>
      only_write ext (MergedColumnOnlyOutputStream_new st path sync' m) block fs
        \<noteq> Some (Done (c', fs')))"
proof -
  have a: "storage (fst (MergedBlockOutputStream_new ext st path cols m fs)) = st \<and>
    min_compress_block_size (fst (MergedBlockOutputStream_new ext st path cols m fs))
      = settings_min_compress_block_size st \<and>
    max_compress_block_size (fst (MergedBlockOutputStream_new ext st path cols m fs))
      = settings_max_compress_block_size st"
    using MergedBlockOutputStream_new_fields [of ext st path cols m fs
        "fst (MergedBlockOutputStream_new ext st path cols m fs)"
        "snd (MergedBlockOutputStream_new ext st path cols m fs)"]
    by simp
  have b: "storage (fst (MergedBlockOutputStream_new_sized ext st path cols m sizes aio fs)) = st \<and>
    min_compress_block_size (fst (MergedBlockOutputStream_new_sized ext st path cols m sizes aio fs))
      = settings_min_compress_block_size st \<and>
    max_compress_block_size (fst (MergedBlockOutputStream_new_sized ext st path cols m sizes aio fs))
      = settings_max_compress_block_size st"
    using MergedBlockOutputStream_new_sized_fields [of ext st path cols m sizes aio fs
        "fst (MergedBlockOutputStream_new_sized ext st path cols m sizes aio fs)"
        "snd (MergedBlockOutputStream_new_sized ext st path cols m sizes aio fs)"]
    by simp
  have c: "writeImpl ext (fst (MergedBlockOutputStream_new ext st path cols m fs)) block
      permutation \<noteq> Some (Done w')" if "index_granularity st = 0"
    using writeImpl_Done [of ext "fst (MergedBlockOutputStream_new ext st path cols m fs)"
        block permutation w'] a that
    by auto
  have d: "only_write ext (MergedColumnOnlyOutputStream_new st path sync' m) block fs
        \<noteq> Some (Done (c', fs'))" if "index_granularity st = 0"
    using only_write_Done [of ext "MergedColumnOnlyOutputStream_new st path sync' m" block fs
        c' fs'] that
    by (auto simp: MergedColumnOnlyOutputStream_new_def)
  from a b c d show ?thesis
    by (simp add: MergedColumnOnlyOutputStream_new_def)
qed

theorem construction_validates_nothing_witness:
  "index_granularity ref_bad_storage = 0 \<and>
   storage (fst (MergedBlockOutputStream_new ref_ext ref_bad_storage ''part/'' ref_columns 0 {}))
     = ref_bad_storage \<and>
   writeImpl ref_ext
       (fst (MergedBlockOutputStream_new ref_ext ref_bad_storage ''part/'' ref_columns 0 {}))
       (ref_block [1, 2, 3]) None
     \<noteq> Some (Done (fst ref_writer))"
proof -
  have g: "index_granularity ref_bad_storage = 0"
    by (simp add: ref_bad_storage_def)
  with construction_validates_nothing [where ext = ref_ext and st = ref_bad_storage
      and path = "''part/''" and cols = ref_columns and m = 0 and fs = "{}"
      and block = "ref_block [1, 2, 3]" and permutation = None and w' = "fst ref_writer"
      and sizes = Map.empty and aio = 0 and sync' = False and c' = ref_only_writer
      and fs' = "{}"]
  show ?thesis by blast
qed

text \<open>C9 as stated fails: with granularity 0 and a minimum of the compressed block above
  its maximum the constructor returns a writer, its directory and its streams created.\<close>

theorem zero_granularity_accepted_counterexample:
  "index_granularity (storage (fst (MergedBlockOutputStream_new ref_ext ref_bad_storage
       ''part/'' ref_columns 0 {}))) = 0 \<and>
   min_compress_block_size (fst (MergedBlockOutputStream_new ref_ext ref_bad_storage
       ''part/'' ref_columns 0 {})) = 9 \<and>
   max_compress_block_size (fst (MergedBlockOutputStream_new ref_ext ref_bad_storage
       ''part/'' ref_columns 0 {})) = 8 \<and>
   map_of (column_streams (fst (MergedBlockOutputStream_new ref_ext ref_bad_storage
       ''part/'' ref_columns 0 {}))) ''n'' \<noteq> None \<and>
   index_stream (fst (MergedBlockOutputStream_new ref_ext ref_bad_storage
       ''part/'' ref_columns 0 {})) = Some [] \<and>
   snd (MergedBlockOutputStream_new ref_ext ref_bad_storage ''part/'' ref_columns 0 {})
     = {''part/'', ''part/primary.idx'', ''part/n.bin'', ''part/n.mrk''}"
  by code_simp

subsection \<open>C10: marks are counted in the Unsorted mode too\<close>

text \<open>C10. A full assembler constructed for a storage in the mode \<open>Unsorted\<close> never opens
  the index stream, and still counts one mark for every row \<open>index_offset,
  index_offset + g, ...\<close> of every block; when the blocks have at least one row in all
  (and fewer than \<open>2^64\<close>), \<^verbatim>\<open>marks_count\<close> is not zero at the commit, which writes
  \<^verbatim>\<open>columns.txt\<close> and \<^verbatim>\<open>checksums.txt\<close> and does not remove the directory.\<close>

theorem unsorted_part_is_persisted:
  assumes "merging_params_mode st = Unsorted"
    and "MergedBlockOutputStream_new ext st path cols m fs0 = (w0, fs1)"
    and "write_blocks ext w0 blocks = Some (Done w)"
    and "\<forall>bp \<in> set blocks. unat (block_rows (fst bp)) + unat (index_granularity st) < 2 ^ 64"
    and "sum_list (map (\<lambda>bp. unat (block_rows (fst bp))) blocks) < 2 ^ 64"
    and "\<exists>bp \<in> set blocks. block_rows (fst bp) \<noteq> 0"
  shows "index_stream w0 = None \<and> index_stream w = None \<and>
    marks_count w = of_nat (spec_marks_count (unat (index_granularity st)) 0
                              (map (\<lambda>bp. unat (block_rows (fst bp))) blocks)) \<and>
    marks_count w \<noteq> 0 \<and>
    (\<exists>checksums w'. writeSuffixAndGetChecksums ext w fs
       = Done (checksums, w',
           insert (path @ ''checksums.txt'') (insert (path @ ''columns.txt'') fs)))"
proof -
  note n = MergedBlockOutputStream_new_fields [OF assms(2)]
  from n assms(1) have w0: "storage w0 = st" "index_offset w0 = 0" "marks_count w0 = 0"
    "index_stream w0 = None" "part_path w0 = path"
    by simp_all
  have le: "index_offset w0 \<le> index_granularity (storage w0)" by (simp add: w0)
  have b: "\<forall>bp \<in> set blocks.
      unat (block_rows (fst bp)) + unat (index_granularity (storage w0)) < 2 ^ 64"
    using assms(4) by (simp add: w0)
  note d = write_blocks_Done [OF assms(3) le b]
  define n where "n = spec_marks_count (unat (index_granularity st)) 0
                              (map (\<lambda>bp. unat (block_rows (fst bp))) blocks)"
  from d have mc: "marks_count w = of_nat n" and idx: "index_stream w = None"
    and st: "storage w = st" and pp: "part_path w = path"
    using assms(1) by (simp_all add: w0 n_def)
  from assms(6) obtain bp where bp: "bp \<in> set blocks" "block_rows (fst bp) \<noteq> 0" by blast
  from assms(3) bp(1) have g0: "index_granularity st \<noteq> 0"
    using writeImpl_Done [of ext w0 "fst (hd blocks)" "snd (hd blocks)"]
    by (cases blocks) (auto simp: w0 split: option.splits outcome.splits)
  have "\<exists>r \<in> set (map (\<lambda>bp. unat (block_rows (fst bp))) blocks). 0 < r"
    using bp by (auto simp: unat_gt_0 intro!: bexI [of _ bp])
  then have "0 < n"
    using g0 by (simp add: n_def spec_marks_count_pos unat_gt_0)
  moreover have "n < 2 ^ 64"
    using spec_marks_count_le [of "unat (index_granularity st)" 0
        "map (\<lambda>bp. unat (block_rows (fst bp))) blocks"] assms(5)
    by (simp add: n_def)
  ultimately have nz: "marks_count w \<noteq> 0"
    by (simp add: mc of_nat_size_t_nonzero)
  have "merging_params_mode (storage w) = Unsorted \<or> index_stream w \<noteq> None"
    using assms(1) by (simp add: st)
  from commit_nonempty [OF nz this, of ext fs] mc idx w0 nz show ?thesis
    by (simp add: pp n_def)
qed

theorem unsorted_part_is_persisted_witness:
  "\<exists>w. merging_params_mode ref_unsorted_storage = Unsorted \<and>
     write_blocks ref_ext (fst ref_unsorted_writer)
       [(ref_block [1, 2, 3], None), (ref_block [4, 5, 6, 7], None)] = Some (Done w) \<and>
     index_stream w = None \<and>
     marks_count w = of_nat (spec_marks_count 2 0 [3, 4]) \<and>
     marks_count w \<noteq> 0 \<and>
     (\<exists>checksums w'. writeSuffixAndGetChecksums ref_ext w (snd ref_unsorted_writer)
        = Done (checksums, w',
            insert (''part/'' @ ''checksums.txt'')
              (insert (''part/'' @ ''columns.txt'') (snd ref_unsorted_writer))))"
proof -
  from ref_unsorted_run obtain w where
    w: "write_blocks ref_ext (fst ref_unsorted_writer)
          [(ref_block [1, 2, 3], None), (ref_block [4, 5, 6, 7], None)] = Some (Done w)" ..
  have u: "merging_params_mode ref_unsorted_storage = Unsorted"
    "index_granularity ref_unsorted_storage = 2"
    by (simp_all add: ref_unsorted_storage_def ref_storage_def)
  have c: "MergedBlockOutputStream_new ref_ext ref_unsorted_storage ''part/'' ref_columns 0 {}
      = (fst ref_unsorted_writer, snd ref_unsorted_writer)"
    by (simp add: ref_unsorted_writer_def)
  have h4: "\<forall>bp \<in> set [(ref_block [1, 2, 3], None), (ref_block [4, 5, 6, 7], None)].
      unat (block_rows (fst bp)) + unat (index_granularity ref_unsorted_storage) < 2 ^ 64"
    by (simp add: ref_rows u)
  have e: "map (\<lambda>bp. unat (block_rows (fst bp)))
      [(ref_block [1, 2, 3], None :: size_t list option), (ref_block [4, 5, 6, 7], None)] = [3, 4]"
    by (simp add: ref_rows)
  have h5: "sum_list (map (\<lambda>bp. unat (block_rows (fst bp)))
      [(ref_block [1, 2, 3], None :: size_t list option), (ref_block [4, 5, 6, 7], None)]) < 2 ^ 64"
    by (simp only: e) simp
  have h6: "\<exists>bp \<in> set [(ref_block [1, 2, 3], None :: size_t list option),
      (ref_block [4, 5, 6, 7], None)]. block_rows (fst bp) \<noteq> 0"
    by (simp add: ref_rows)
  have two: "unat (index_granularity ref_unsorted_storage) = 2" by (simp add: u)
  note t = unsorted_part_is_persisted [OF u(1) c w h4 h5 h6, of "snd ref_unsorted_writer",
      unfolded e two]
  then have "index_stream w = None \<and>
     marks_count w = of_nat (spec_marks_count 2 0 [3, 4]) \<and>
     marks_count w \<noteq> 0 \<and>
     (\<exists>checksums w'. writeSuffixAndGetChecksums ref_ext w (snd ref_unsorted_writer)
        = Done (checksums, w',
            insert (''part/'' @ ''checksums.txt'')
              (insert (''part/'' @ ''columns.txt'') (snd ref_unsorted_writer))))"
    by blast
  with w u(1) show ?thesis by blast
qed

end
